theory Spec2Isabelle
  imports Complex_Main "HOL-Library.Word"
begin

chapter \<open>SonosCast: the Cast v2 virtual receiver\<close>

text \<open>
  A shallow embedding of the receiver side of SonosCast: the length-prefixed frame codec of
  \<^verbatim>\<open>cast-protocol.js\<close> (\<^verbatim>\<open>PacketReader\<close>, \<^verbatim>\<open>CastProtocolServer.send\<close>), the
  namespace handlers of \<^verbatim>\<open>cast-device.js\<close> (\<^verbatim>\<open>CastDevice\<close>) and the identity store of
  \<^verbatim>\<open>device-registry.js\<close> (\<^verbatim>\<open>DeviceRegistry\<close>).

  Library calls are parameters of the model: the protobuf codec of the envelope,
  \<^verbatim>\<open>JSON.parse\<close>, \<^verbatim>\<open>uuidv4\<close>, \<^verbatim>\<open>selfsigned.generate\<close>, the clock and the file system.
  An exception of the source is a value of type \<open>error\<close>; every \<^verbatim>\<open>try/catch\<close> of a
  handler is a \<open>try_catch\<close> of the model. The listeners of the emitted events are the
  asynchronous methods of \<^verbatim>\<open>Bridge\<close>, which return a promise and do not raise into the
  handler.
\<close>

section \<open>Errors and bytes\<close>

type_synonym byte = "8 word"

datatype error = RangeError | TypeError | SyntaxError | ProtocolError

section \<open>Frame codec (cast-protocol.js)\<close>

text \<open>
  The envelope \<^verbatim>\<open>CastMessage\<close>: \<^verbatim>\<open>send\<close> sets exactly one of the two payload fields, the
  other stays absent.
\<close>

record cast_message =
  protocolVersion :: nat
  sourceId :: string
  destinationId :: string
  namespace_ :: string
  payloadType :: nat
  payloadUtf8 :: "string option"
  payloadBinary :: "byte list option"

text \<open>The \<^verbatim>\<open>data\<close> argument of \<^verbatim>\<open>send\<close>: a string or a \<^verbatim>\<open>Buffer\<close>.\<close>

datatype send_data = Str string | Buf "byte list"

text \<open>
  \<^verbatim>\<open>Buffer.writeUInt32BE(value, 0)\<close> on a fresh four-byte buffer: Node raises a
  \<^verbatim>\<open>RangeError\<close> for a value above \<open>2^32 - 1\<close>.
\<close>

definition writeUInt32BE :: "nat \<Rightarrow> error + byte list" where
  "writeUInt32BE v =
     (if v > 4294967295 then Inl RangeError
      else Inr [of_nat (v div 2 ^ 24 mod 256), of_nat (v div 2 ^ 16 mod 256),
                of_nat (v div 2 ^ 8 mod 256), of_nat (v mod 256)])"

text \<open>\<^verbatim>\<open>Buffer.readUInt32BE(0)\<close>; the reader calls it on four bytes or more only.\<close>

definition readUInt32BE :: "byte list \<Rightarrow> nat" where
  "readUInt32BE b =
     unat (b ! 0) * 2 ^ 24 + unat (b ! 1) * 2 ^ 16 + unat (b ! 2) * 2 ^ 8 + unat (b ! 3)"

definition build_message :: "string \<Rightarrow> string \<Rightarrow> string \<Rightarrow> send_data \<Rightarrow> cast_message" where
  "build_message src dst ns d =
     (case d of
        Buf b \<Rightarrow> \<lparr>protocolVersion = 0, sourceId = src, destinationId = dst, namespace_ = ns,
                  payloadType = 1, payloadUtf8 = None, payloadBinary = Some b\<rparr>
      | Str s \<Rightarrow> \<lparr>protocolVersion = 0, sourceId = src, destinationId = dst, namespace_ = ns,
                  payloadType = 0, payloadUtf8 = Some s, payloadBinary = None\<rparr>)"

text \<open>
  \<^verbatim>\<open>CastProtocolServer.send\<close>, with the protobuf encoder \<open>enc\<close> a parameter. The result is
  what is written to the client's socket: nothing for an unknown client (a warning is
  logged), the header followed by the encoded envelope otherwise. The \<^verbatim>\<open>RangeError\<close> of
  the header write is not caught by \<^verbatim>\<open>send\<close>.
\<close>

definition send :: "(cast_message \<Rightarrow> byte list) \<Rightarrow> string list \<Rightarrow> string \<Rightarrow> string \<Rightarrow> string
    \<Rightarrow> string \<Rightarrow> send_data \<Rightarrow> error + byte list option" where
  "send enc clients clientId src dst ns d =
     (if clientId \<notin> set clients then Inr None
      else
        let encoded = enc (build_message src dst ns d) in
        case writeUInt32BE (length encoded) of
          Inl e \<Rightarrow> Inl e
        | Inr header \<Rightarrow> Inr (Some (header @ encoded)))"

text \<open>\<^verbatim>\<open>PacketReader\<close>: the unconsumed tail and the length of the body being awaited.\<close>

record packet_reader =
  buffer :: "byte list"
  expectedLength :: "nat option"

definition new_reader :: packet_reader where
  "new_reader = \<lparr>buffer = [], expectedLength = None\<rparr>"

text \<open>
  The first \<^verbatim>\<open>if\<close> of the loop body: with no length pending, fewer than four bytes end
  the loop (\<open>None\<close>); otherwise the prefix is read and cut off.
\<close>

definition read_prefix :: "packet_reader \<Rightarrow> (byte list \<times> nat) option" where
  "read_prefix r =
     (case expectedLength r of
        Some n \<Rightarrow> Some (buffer r, n)
      | None \<Rightarrow>
          if length (buffer r) < 4 then None
          else Some (drop 4 (buffer r), readUInt32BE (buffer r)))"

text \<open>
  The \<^verbatim>\<open>while (true)\<close> loop of \<^verbatim>\<open>_onData\<close>, one recursive call per iteration. The decoder
  \<open>dec\<close> is a parameter; a body it rejects (\<open>None\<close>) is logged and dropped. The second
  component is the list of messages handed to \<^verbatim>\<open>onMessage\<close>, in order.
\<close>

function onData_loop :: "(byte list \<Rightarrow> 'm option) \<Rightarrow> packet_reader \<Rightarrow> packet_reader \<times> 'm list" where
  "onData_loop dec r =
     (case read_prefix r of
        None \<Rightarrow> (r, [])
      | Some (b, n) \<Rightarrow>
          if length b < n then (\<lparr>buffer = b, expectedLength = Some n\<rparr>, [])
          else
            let messageData = take n b;
                (r', out) = onData_loop dec \<lparr>buffer = drop n b, expectedLength = None\<rparr>
            in (r', (case dec messageData of None \<Rightarrow> [] | Some m \<Rightarrow> [m]) @ out))"
  by pat_completeness auto
termination
  by (relation "measure (\<lambda>(dec, r). 2 * length (buffer r)
                   + (case expectedLength r of None \<Rightarrow> 0 | Some _ \<Rightarrow> 1))")
     (auto simp: read_prefix_def split: option.splits if_splits)

definition onData :: "(byte list \<Rightarrow> 'm option) \<Rightarrow> packet_reader \<Rightarrow> byte list
    \<Rightarrow> packet_reader \<times> 'm list" where
  "onData dec r chunk = onData_loop dec (r\<lparr>buffer := buffer r @ chunk\<rparr>)"

text \<open>A sequence of \<^verbatim>\<open>data\<close> events of one socket.\<close>

fun onData_all :: "(byte list \<Rightarrow> 'm option) \<Rightarrow> packet_reader \<Rightarrow> byte list list
    \<Rightarrow> packet_reader \<times> 'm list" where
  "onData_all dec r [] = (r, [])"
| "onData_all dec r (c # cs) =
     (let (r1, o1) = onData dec r c; (r2, o2) = onData_all dec r1 cs in (r2, o1 @ o2))"

section \<open>JavaScript values\<close>

text \<open>
  What \<^verbatim>\<open>JSON.parse\<close> returns, and \<^verbatim>\<open>undefined\<close> for an absent property. A number is
  its value; both zeros of a double are \<open>0\<close>.
\<close>

datatype js =
    JUndefined
  | JNull
  | JBool bool
  | JNum rat
  | JStr string
  | JArr "js list"
  | JObj "(string \<times> js) list"

fun truthy :: "js \<Rightarrow> bool" where
  "truthy JUndefined = False"
| "truthy JNull = False"
| "truthy (JBool b) = b"
| "truthy (JNum n) = (n \<noteq> 0)"
| "truthy (JStr s) = (s \<noteq> [])"
| "truthy (JArr xs) = True"
| "truthy (JObj kvs) = True"

text \<open>The operator \<^verbatim>\<open>a || b\<close>.\<close>

definition or_else :: "js \<Rightarrow> js \<Rightarrow> js" where
  "or_else a b = (if truthy a then a else b)"

text \<open>
  Reading a property of a value that is neither \<^verbatim>\<open>null\<close> nor \<^verbatim>\<open>undefined\<close>. None of the
  property names the handlers read is defined on the prototype of a string, number, boolean
  or array, so a value that is not an object yields \<^verbatim>\<open>undefined\<close>.
\<close>

fun get :: "js \<Rightarrow> string \<Rightarrow> js" where
  "get (JObj kvs) k = (case map_of kvs k of None \<Rightarrow> JUndefined | Some v \<Rightarrow> v)"
| "get v k = JUndefined"

text \<open>Reading a property of any value: \<^verbatim>\<open>null\<close> and \<^verbatim>\<open>undefined\<close> raise a \<^verbatim>\<open>TypeError\<close>.\<close>

fun js_prop :: "js \<Rightarrow> string \<Rightarrow> error + js" where
  "js_prop JUndefined k = Inl TypeError"
| "js_prop JNull k = Inl TypeError"
| "js_prop v k = Inr (get v k)"

text \<open>
  Whether a value can stand in a template literal, as the log lines of the handlers have
  them. The conversion to a string raises a \<^verbatim>\<open>TypeError\<close> for an object with a property
  \<^verbatim>\<open>toString\<close> of its own (a parsed value is never callable, and \<^verbatim>\<open>valueOf\<close> returns the
  object), and for an array that holds such an object, since \<^verbatim>\<open>join\<close> converts the
  elements.
\<close>

fun printable :: "js \<Rightarrow> bool" where
  "printable (JArr xs) = list_all printable xs"
| "printable (JObj kvs) = (map_of kvs ''toString'' = None)"
| "printable v = True"

text \<open>
  \<^verbatim>\<open>++this._mediaRequestId\<close> on a JavaScript number that started at \<open>0\<close>: exact below
  \<open>2^53\<close>, where the sum \<open>2^53 + 1\<close> rounds back to \<open>2^53\<close>.
\<close>

definition js_increment :: "nat \<Rightarrow> nat" where
  "js_increment n = (if n < 2 ^ 53 then n + 1 else n)"

section \<open>Receiver state (cast-device.js)\<close>

datatype player_state = IDLE | BUFFERING | PLAYING | PAUSED

record media_info =
  contentId :: js
  contentType :: js
  streamType :: js
  metadata :: js

record volume_info =
  level :: rat
  muted :: bool

record media_status =
  mediaSessionId :: nat
  playerState :: player_state
  media :: media_info
  currentTime :: js
  supportedMediaCommands :: nat
  volume :: volume_info

record session =
  connected_ :: bool
  senderId :: "string option"

text \<open>
  The fields of \<^verbatim>\<open>CastDevice\<close> the handlers read or write. \<open>server_up\<close> and \<open>mdns_up\<close>
  say that \<^verbatim>\<open>_server\<close> and \<^verbatim>\<open>_mdnsService\<close> are not \<^verbatim>\<open>null\<close>.
\<close>

record cast_device =
  speakerIp :: string
  device_id :: string
  sessions :: "(string \<times> session) list"
  mediaRequestId :: nat
  sessionId :: string
  transportId :: string
  appRunning :: bool
  mediaStatus :: "media_status option"
  server_up :: bool
  mdns_up :: bool

record application =
  appId :: string
  displayName :: string
  isIdleScreen :: bool
  launchedFromCloud :: bool
  namespaces :: "string list"
  app_sessionId :: string
  statusText :: string
  app_transportId :: string

record load_event =
  load_speakerIp :: string
  load_contentId :: js
  load_contentType :: js
  load_streamType :: js
  load_metadata :: js
  autoplay :: bool
  load_currentTime :: js

text \<open>The events \<^verbatim>\<open>CastDevice\<close> emits, each with the speaker address first.\<close>

datatype event =
    LoadEv load_event
  | PlayEv string
  | PauseEv string
  | StopEv string
  | SeekEv string js
  | VolumeEv string js js

text \<open>
  The payload handed to \<^verbatim>\<open>_server.send\<close>: the object given to \<^verbatim>\<open>JSON.stringify\<close> (request
  id and the list that varies; the volume block of a receiver status is constant), the
  buffer of the authentication helper, or the encoded error sub-message with its
  \<^verbatim>\<open>errorType\<close>.
\<close>

datatype reply =
    Pong
  | ReceiverStatus js "application list"
  | MediaStatus js "media_status list"
  | AuthResponse "byte list"
  | AuthError nat

datatype log_level = Debug | Info | Warning | Error

text \<open>
  What a handler does to its collaborators, in order: a call of \<^verbatim>\<open>_server.send\<close>
  (client, source, destination, namespace, payload), an emitted event, a log line, a
  \<^verbatim>\<open>setTimeout\<close> (delay and the client and sender its callback captured), and the two
  calls of \<^verbatim>\<open>stop\<close>.
\<close>

datatype action =
    Send string string string string reply
  | Emit event
  | Log log_level
  | SetTimeout nat string string
  | MdnsStop
  | ServerClose

text \<open>The \<^verbatim>\<open>data\<close> of an incoming message: \<^verbatim>\<open>payloadUtf8\<close> or \<^verbatim>\<open>payloadBinary\<close>.\<close>

datatype data = Utf8 string | Binary "byte list"

text \<open>
  The library calls of the handlers: \<^verbatim>\<open>JSON.parse\<close>, the next value of \<^verbatim>\<open>uuidv4()\<close>,
  \<^verbatim>\<open>deviceAuthType.decode\<close>, and \<^verbatim>\<open>castAuth.handleAuthChallenge\<close> (\<^verbatim>\<open>cast-auth.js\<close> is not
  among the sources): it returns a buffer, or nothing when no signature is available, or
  raises.
\<close>

record 'c env =
  json_parse :: "data \<Rightarrow> error + js"
  uuidv4 :: string
  auth_decode :: "data \<Rightarrow> error + 'c"
  handleAuthChallenge :: "'c \<Rightarrow> error + byte list option"

definition CASTV2_NS_CONNECTION :: string where
  "CASTV2_NS_CONNECTION = ''urn:x-cast:com.google.cast.tp.connection''"

definition CASTV2_NS_HEARTBEAT :: string where
  "CASTV2_NS_HEARTBEAT = ''urn:x-cast:com.google.cast.tp.heartbeat''"

definition CASTV2_NS_RECEIVER :: string where
  "CASTV2_NS_RECEIVER = ''urn:x-cast:com.google.cast.receiver''"

definition CASTV2_NS_MEDIA :: string where
  "CASTV2_NS_MEDIA = ''urn:x-cast:com.google.cast.media''"

definition CASTV2_NS_DEVICEAUTH :: string where
  "CASTV2_NS_DEVICEAUTH = ''urn:x-cast:com.google.cast.tp.deviceauth''"

definition DEFAULT_MEDIA_RECEIVER :: string where
  "DEFAULT_MEDIA_RECEIVER = ''CC1AD845''"

text \<open>
  A handler returns the state it leaves, what it did, and the exception it raised, if any:
  state changes and actions before a \<^verbatim>\<open>throw\<close> stay.
\<close>

type_synonym outcome = "cast_device \<times> action list \<times> error option"

definition and_then :: "outcome \<Rightarrow> (cast_device \<Rightarrow> outcome) \<Rightarrow> outcome" where
  "and_then r f =
     (case r of
        (s, acts, Some e) \<Rightarrow> (s, acts, Some e)
      | (s, acts, None) \<Rightarrow> (case f s of (s', acts', e') \<Rightarrow> (s', acts @ acts', e')))"

definition try_catch :: "outcome \<Rightarrow> (cast_device \<Rightarrow> outcome) \<Rightarrow> outcome" where
  "try_catch r h =
     (case r of
        (s, acts, Some e) \<Rightarrow> (case h s of (s', acts', e') \<Rightarrow> (s', acts @ acts', e'))
      | (s, acts, None) \<Rightarrow> (s, acts, None))"

text \<open>\<^verbatim>\<open>this._server.send(...)\<close>: a \<^verbatim>\<open>TypeError\<close> when \<^verbatim>\<open>_server\<close> is \<^verbatim>\<open>null\<close>.\<close>

definition server_send :: "string \<Rightarrow> string \<Rightarrow> string \<Rightarrow> string \<Rightarrow> reply \<Rightarrow> cast_device \<Rightarrow> outcome" where
  "server_send clientId src dst ns payload s =
     (if server_up s then (s, [Send clientId src dst ns payload], None)
      else (s, [], Some TypeError))"

text \<open>
  A log call whose message interpolates the given values: the \<^verbatim>\<open>TypeError\<close> of a value
  that cannot be converted is raised before anything is logged.
\<close>

definition log_line :: "log_level \<Rightarrow> js list \<Rightarrow> cast_device \<Rightarrow> outcome" where
  "log_line lvl vs s =
     (if list_all printable vs then (s, [Log lvl], None) else (s, [], Some TypeError))"

text \<open>The constructor, with the device id of the options and the first \<^verbatim>\<open>uuidv4()\<close>.\<close>

definition new_device :: "string \<Rightarrow> string \<Rightarrow> string \<Rightarrow> cast_device" where
  "new_device ip devId uuid =
     \<lparr>speakerIp = ip, device_id = devId, sessions = [], mediaRequestId = 0, sessionId = uuid,
      transportId = ''transport-'' @ take 8 devId, appRunning = False, mediaStatus = None,
      server_up = False, mdns_up = False\<rparr>"

text \<open>\<^verbatim>\<open>start()\<close> once the listener is up and the service is advertised.\<close>

definition start :: "cast_device \<Rightarrow> cast_device" where
  "start s = s\<lparr>server_up := True, mdns_up := True\<rparr>"

definition stop :: "cast_device \<Rightarrow> outcome" where
  "stop s =
     (let (s1, a1) = (if mdns_up s then (s\<lparr>mdns_up := False\<rparr>, [MdnsStop]) else (s, []));
          (s2, a2) = (if server_up s1 then (s1\<lparr>server_up := False\<rparr>, [ServerClose]) else (s1, []))
      in (s2, a1 @ a2 @ [Log Info], None))"

definition onConnect :: "string \<Rightarrow> cast_device \<Rightarrow> outcome" where
  "onConnect clientId s =
     (s\<lparr>sessions := (clientId, \<lparr>connected_ = True, senderId = None\<rparr>)
                        # filter (\<lambda>p. fst p \<noteq> clientId) (sessions s)\<rparr>,
      [Log Debug], None)"

definition onDisconnect :: "string \<Rightarrow> cast_device \<Rightarrow> outcome" where
  "onDisconnect clientId s =
     (s\<lparr>sessions := filter (\<lambda>p. fst p \<noteq> clientId) (sessions s)\<rparr>, [Log Debug], None)"

definition handleConnection :: "'c env \<Rightarrow> string \<Rightarrow> string \<Rightarrow> data \<Rightarrow> cast_device \<Rightarrow> outcome" where
  "handleConnection env clientId src d s =
     try_catch
       (case json_parse env d of
          Inl e \<Rightarrow> (s, [], Some e)
        | Inr payload \<Rightarrow>
            (case js_prop payload ''type'' of
               Inl e \<Rightarrow> (s, [], Some e)
             | Inr t \<Rightarrow>
                 and_then (log_line Debug [t] s)
                   (\<lambda>s'. if t = JStr ''CONNECT'' then
                            (s'\<lparr>sessions := map (\<lambda>(c, ses). if c = clientId
                                                             then (c, ses\<lparr>senderId := Some src\<rparr>)
                                                             else (c, ses)) (sessions s')\<rparr>,
                             [], None)
                          else (s', [], None))))
       (\<lambda>s'. (s', [Log Warning], None))"

definition handleHeartbeat :: "'c env \<Rightarrow> string \<Rightarrow> string \<Rightarrow> data \<Rightarrow> cast_device \<Rightarrow> outcome" where
  "handleHeartbeat env clientId src d s =
     try_catch
       (case json_parse env d of
          Inl e \<Rightarrow> (s, [], Some e)
        | Inr payload \<Rightarrow>
            (case js_prop payload ''type'' of
               Inl e \<Rightarrow> (s, [], Some e)
             | Inr t \<Rightarrow>
                 if t = JStr ''PING'' then
                   server_send clientId ''receiver-0'' src CASTV2_NS_HEARTBEAT Pong s
                 else (s, [], None)))
       (\<lambda>s'. (s', [Log Warning], None))"

text \<open>
  \<^verbatim>\<open>_handleDeviceAuth\<close>. In the branch for a missing signature the source calls
  \<^verbatim>\<open>log.warn\<close>, which \<^verbatim>\<open>logger.js\<close> does not export: the call raises a \<^verbatim>\<open>TypeError\<close> before
  that branch builds its reply, and the \<^verbatim>\<open>catch\<close> block sends the error sub-message
  (\<^verbatim>\<open>errorType\<close> 0 is \<^verbatim>\<open>INTERNAL_ERROR\<close>).
\<close>

definition handleDeviceAuth :: "'c env \<Rightarrow> string \<Rightarrow> string \<Rightarrow> data \<Rightarrow> cast_device \<Rightarrow> outcome" where
  "handleDeviceAuth env clientId src d s =
     and_then (s, [Log Info], None)
       (\<lambda>s0. try_catch
          (case auth_decode env d of
             Inl e \<Rightarrow> (s0, [], Some e)
           | Inr challenge \<Rightarrow>
               and_then (s0, [Log Debug], None)
                 (\<lambda>s1. case handleAuthChallenge env challenge of
                          Inl e \<Rightarrow> (s1, [], Some e)
                        | Inr (Some authResponseBuffer) \<Rightarrow>
                            and_then
                              (server_send clientId ''receiver-0'' src CASTV2_NS_DEVICEAUTH
                                 (AuthResponse authResponseBuffer) s1)
                              (\<lambda>s2. (s2, [Log Info], None))
                        | Inr None \<Rightarrow> (s1, [], Some TypeError)))
          (\<lambda>s1. and_then (s1, [Log Error], None)
                   (\<lambda>s2. try_catch
                            (server_send clientId ''receiver-0'' src CASTV2_NS_DEVICEAUTH
                               (AuthError 0) s2)
                            (\<lambda>s3. (s3, [Log Error], None)))))"

definition sendReceiverStatus :: "string \<Rightarrow> string \<Rightarrow> js \<Rightarrow> cast_device \<Rightarrow> outcome" where
  "sendReceiverStatus clientId src requestId s =
     server_send clientId ''receiver-0'' src CASTV2_NS_RECEIVER
       (ReceiverStatus (or_else requestId (JNum 0))
          (if appRunning s then
             [\<lparr>appId = DEFAULT_MEDIA_RECEIVER, displayName = ''Default Media Receiver'',
               isIdleScreen = False, launchedFromCloud = False, namespaces = [CASTV2_NS_MEDIA],
               app_sessionId = sessionId s, statusText = ''Ready To Cast'',
               app_transportId = transportId s\<rparr>]
           else [])) s"

definition handleLaunch :: "'c env \<Rightarrow> string \<Rightarrow> string \<Rightarrow> js \<Rightarrow> cast_device \<Rightarrow> outcome" where
  "handleLaunch env clientId src payload s =
     and_then (log_line Info [get payload ''appId''] s)
       (\<lambda>s'. and_then
                (s'\<lparr>appRunning := True, sessionId := uuidv4 env, mediaStatus := None\<rparr>, [], None)
                (sendReceiverStatus clientId src (get payload ''requestId'')))"

definition handleStop :: "string \<Rightarrow> string \<Rightarrow> js \<Rightarrow> cast_device \<Rightarrow> outcome" where
  "handleStop clientId src payload s =
     and_then
       (s\<lparr>appRunning := False, mediaStatus := None\<rparr>,
        [Log Info, Emit (StopEv (speakerIp s))], None)
       (sendReceiverStatus clientId src (get payload ''requestId''))"

definition handleSetVolume :: "string \<Rightarrow> string \<Rightarrow> js \<Rightarrow> cast_device \<Rightarrow> outcome" where
  "handleSetVolume clientId src payload s =
     and_then
       (if truthy (get payload ''volume'') then
          (s, [Log Debug, Emit (VolumeEv (speakerIp s) (get (get payload ''volume'') ''level'')
                                   (get (get payload ''volume'') ''muted''))], None)
        else (s, [], None))
       (sendReceiverStatus clientId src (get payload ''requestId''))"

definition handleReceiver :: "'c env \<Rightarrow> string \<Rightarrow> string \<Rightarrow> data \<Rightarrow> cast_device \<Rightarrow> outcome" where
  "handleReceiver env clientId src d s =
     try_catch
       (case json_parse env d of
          Inl e \<Rightarrow> (s, [], Some e)
        | Inr payload \<Rightarrow>
            (case js_prop payload ''type'' of
               Inl e \<Rightarrow> (s, [], Some e)
             | Inr t \<Rightarrow>
                 and_then (log_line Debug [t] s)
                   (if t = JStr ''GET_STATUS'' then
                      sendReceiverStatus clientId src (get payload ''requestId'')
                    else if t = JStr ''LAUNCH'' then handleLaunch env clientId src payload
                    else if t = JStr ''STOP'' then handleStop clientId src payload
                    else if t = JStr ''SET_VOLUME'' then handleSetVolume clientId src payload
                    else (\<lambda>s'. (s', [Log Debug], None)))))
       (\<lambda>s'. (s', [Log Warning], None))"

text \<open>
  \<^verbatim>\<open>_sendMediaStatus\<close>: with a record present and a player state given, the record takes
  that state before it is sent. The four player states are non-empty strings, so a given
  state is truthy; \<open>None\<close> is the omitted argument.
\<close>

definition sendMediaStatus :: "string \<Rightarrow> string \<Rightarrow> js \<Rightarrow> player_state option \<Rightarrow> cast_device
    \<Rightarrow> outcome" where
  "sendMediaStatus clientId src requestId ps s =
     (let s1 = (case mediaStatus s of
                  None \<Rightarrow> s
                | Some ms \<Rightarrow>
                    (case ps of
                       None \<Rightarrow> s
                     | Some p \<Rightarrow> s\<lparr>mediaStatus := Some (ms\<lparr>playerState := p\<rparr>)\<rparr>))
      in server_send clientId (transportId s1) src CASTV2_NS_MEDIA
           (MediaStatus (or_else requestId (JNum 0))
              (case mediaStatus s1 of None \<Rightarrow> [] | Some ms \<Rightarrow> [ms])) s1)"

text \<open>
  The two object literals of \<^verbatim>\<open>_handleMediaLoad\<close>: the media-status record with its
  session id, and the \<^verbatim>\<open>load\<close> event.
\<close>

definition new_media_status :: "nat \<Rightarrow> js \<Rightarrow> media_status" where
  "new_media_status n payload =
     (let m = get payload ''media'' in
      \<lparr>mediaSessionId = n, playerState = BUFFERING,
       media = \<lparr>contentId = get m ''contentId'',
                contentType = or_else (get m ''contentType'') (JStr ''''),
                streamType = or_else (get m ''streamType'') (JStr ''BUFFERED''),
                metadata = or_else (get m ''metadata'') (JObj [])\<rparr>,
       currentTime = or_else (get payload ''currentTime'') (JNum 0),
       supportedMediaCommands = 274447,
       volume = \<lparr>level = 1, muted = False\<rparr>\<rparr>)"

definition load_event_of :: "string \<Rightarrow> js \<Rightarrow> load_event" where
  "load_event_of ip payload =
     (let m = get payload ''media'' in
      \<lparr>load_speakerIp = ip,
       load_contentId = get m ''contentId'',
       load_contentType = or_else (get m ''contentType'') (JStr ''''),
       load_streamType = or_else (get m ''streamType'') (JStr ''BUFFERED''),
       load_metadata = or_else (get m ''metadata'') (JObj []),
       autoplay = (get payload ''autoplay'' \<noteq> JBool False),
       load_currentTime = or_else (get payload ''currentTime'') (JNum 0)\<rparr>)"

definition handleMediaLoad :: "string \<Rightarrow> string \<Rightarrow> js \<Rightarrow> cast_device \<Rightarrow> outcome" where
  "handleMediaLoad clientId src payload s =
     (let m = get payload ''media'' in
      if \<not> truthy m \<or> \<not> truthy (get m ''contentId'') then (s, [Log Warning], None)
      else
        and_then
          (log_line Info [get m ''contentId'', or_else (get m ''contentType'') (JStr ''unknown'')] s)
          (\<lambda>s0.
             let n = js_increment (mediaRequestId s0);
                 s1 = s0\<lparr>mediaRequestId := n, mediaStatus := Some (new_media_status n payload)\<rparr>
             in and_then
                  (s1, [Emit (LoadEv (load_event_of (speakerIp s0) payload))], None)
                  (\<lambda>s2. and_then
                           (sendMediaStatus clientId src (get payload ''requestId'')
                              (Some BUFFERING) s2)
                           (\<lambda>s3. (s3, [SetTimeout 500 clientId src], None)))))"

text \<open>
  The callback of the \<^verbatim>\<open>setTimeout\<close> in \<^verbatim>\<open>_handleMediaLoad\<close>. It runs from the event loop:
  no \<^verbatim>\<open>try/catch\<close> of the source encloses it.
\<close>

definition load_timer :: "string \<Rightarrow> string \<Rightarrow> cast_device \<Rightarrow> outcome" where
  "load_timer clientId src s = sendMediaStatus clientId src (JNum 0) (Some PLAYING) s"

definition handleMedia :: "'c env \<Rightarrow> string \<Rightarrow> string \<Rightarrow> string \<Rightarrow> data \<Rightarrow> cast_device
    \<Rightarrow> outcome" where
  "handleMedia env clientId src dst d s =
     try_catch
       (case json_parse env d of
          Inl e \<Rightarrow> (s, [], Some e)
        | Inr payload \<Rightarrow>
            (case js_prop payload ''type'' of
               Inl e \<Rightarrow> (s, [], Some e)
             | Inr t \<Rightarrow>
                 and_then (log_line Debug [t] s)
                   (if t = JStr ''LOAD'' then handleMediaLoad clientId src payload
                    else if t = JStr ''PLAY'' then
                      (\<lambda>s'. and_then (s', [Emit (PlayEv (speakerIp s'))], None)
                               (sendMediaStatus clientId src (get payload ''requestId'')
                                  (Some PLAYING)))
                    else if t = JStr ''PAUSE'' then
                      (\<lambda>s'. and_then (s', [Emit (PauseEv (speakerIp s'))], None)
                               (sendMediaStatus clientId src (get payload ''requestId'')
                                  (Some PAUSED)))
                    else if t = JStr ''STOP'' then
                      (\<lambda>s'. and_then (s', [Emit (StopEv (speakerIp s'))], None)
                               (sendMediaStatus clientId src (get payload ''requestId'')
                                  (Some IDLE)))
                    else if t = JStr ''SEEK'' then
                      (\<lambda>s'. and_then
                               (s', [Emit (SeekEv (speakerIp s') (get payload ''currentTime''))],
                                None)
                               (sendMediaStatus clientId src (get payload ''requestId'')
                                  (Some PLAYING)))
                    else if t = JStr ''GET_STATUS'' then
                      (\<lambda>s'. sendMediaStatus clientId src (get payload ''requestId'')
                               (Some (case mediaStatus s' of None \<Rightarrow> IDLE
                                      | Some ms \<Rightarrow> playerState ms)) s')
                    else if t = JStr ''SET_VOLUME'' then
                      (\<lambda>s'. and_then
                               (if truthy (get payload ''volume'') then
                                  (s', [Emit (VolumeEv (speakerIp s')
                                                (get (get payload ''volume'') ''level'')
                                                (get (get payload ''volume'') ''muted''))], None)
                                else (s', [], None))
                               (sendMediaStatus clientId src (get payload ''requestId'') None))
                    else (\<lambda>s'. (s', [Log Debug], None)))))
       (\<lambda>s'. (s', [Log Warning], None))"

definition onMessage :: "'c env \<Rightarrow> string \<Rightarrow> string \<Rightarrow> string \<Rightarrow> string \<Rightarrow> data \<Rightarrow> cast_device
    \<Rightarrow> outcome" where
  "onMessage env clientId src dst ns d s =
     (if ns = CASTV2_NS_CONNECTION then handleConnection env clientId src d s
      else if ns = CASTV2_NS_HEARTBEAT then handleHeartbeat env clientId src d s
      else if ns = CASTV2_NS_DEVICEAUTH then handleDeviceAuth env clientId src d s
      else if ns = CASTV2_NS_RECEIVER then handleReceiver env clientId src d s
      else if ns = CASTV2_NS_MEDIA then handleMedia env clientId src dst d s
      else (s, [Log Debug], None))"

subsection \<open>A receiver's lifetime\<close>

text \<open>
  Everything that can happen to one receiver: a connection opens or closes, a message
  arrives (with the library results of its handling), a load timer fires, the device is
  started or stopped. An exception that escapes a step leaves the state as the step left it.
\<close>

datatype 'c input =
    Connected string
  | Disconnected string
  | Message "'c env" string string string string data
  | TimerFired string string
  | Started
  | Stopped

fun step :: "'c input \<Rightarrow> cast_device \<Rightarrow> outcome" where
  "step (Connected c) s = onConnect c s"
| "step (Disconnected c) s = onDisconnect c s"
| "step (Message env c src dst ns d) s = onMessage env c src dst ns d s"
| "step (TimerFired c src) s = load_timer c src s"
| "step Started s = (start s, [], None)"
| "step Stopped s = stop s"

fun run :: "'c input list \<Rightarrow> cast_device \<Rightarrow> cast_device" where
  "run [] s = s"
| "run (i # ins) s = run ins (fst (step i s))"

text \<open>
  A payload that \<^verbatim>\<open>_handleMediaLoad\<close> carries out: \<^verbatim>\<open>media\<close> and \<^verbatim>\<open>media.contentId\<close> are
  truthy, and the content id and type can stand in its log line. A \<^verbatim>\<open>LOAD\<close> message with
  such a payload.
\<close>

definition has_contentId :: "js \<Rightarrow> bool" where
  "has_contentId payload =
     (truthy (get payload ''media'') \<and> truthy (get (get payload ''media'') ''contentId'')
      \<and> printable (get (get payload ''media'') ''contentId'')
      \<and> printable (or_else (get (get payload ''media'') ''contentType'') (JStr ''unknown'')))"

definition is_load :: "'c env \<Rightarrow> data \<Rightarrow> bool" where
  "is_load env d =
     (case json_parse env d of
        Inl e \<Rightarrow> False
      | Inr p \<Rightarrow> js_prop p ''type'' = Inr (JStr ''LOAD'') \<and> has_contentId p)"

text \<open>The calls of \<^verbatim>\<open>_server.send\<close> and the emitted events among the actions of a handler.\<close>

fun sends :: "action list \<Rightarrow> action list" where
  "sends [] = []"
| "sends (Send c src dst ns p # acts) = Send c src dst ns p # sends acts"
| "sends (a # acts) = sends acts"

fun emitted :: "action list \<Rightarrow> event list" where
  "emitted [] = []"
| "emitted (Emit e # acts) = e # emitted acts"
| "emitted (a # acts) = emitted acts"

text \<open>An outcome with the application flag of its state overwritten.\<close>

definition with_appRunning :: "bool \<Rightarrow> outcome \<Rightarrow> outcome" where
  "with_appRunning b r = (case r of (s, acts, e) \<Rightarrow> (s\<lparr>appRunning := b\<rparr>, acts, e))"

subsection \<open>Timers\<close>

text \<open>
  The receiver in the event loop of Node.js, with the timers that \<^verbatim>\<open>setTimeout\<close> has set
  and that have not run yet: the time left in milliseconds, and the client and sender the
  callback captured. Handling a message appends the timers it set. Time passing runs the
  callbacks whose time is up, in the order they were set (all are set with the same delay),
  and leaves the others with less time left; no callback of \<^verbatim>\<open>cast-device.js\<close> sets a
  timer. An exception that escapes a callback is caught nowhere in the source: the callbacks
  after it are not run (\<^verbatim>\<open>index.js\<close> ends the process on an uncaught exception).
\<close>

record event_loop =
  receiver :: cast_device
  timers :: "(nat \<times> string \<times> string) list"

fun set_timers :: "action list \<Rightarrow> (nat \<times> string \<times> string) list" where
  "set_timers [] = []"
| "set_timers (SetTimeout ms c src # acts) = (ms, c, src) # set_timers acts"
| "set_timers (a # acts) = set_timers acts"

definition deliver :: "'c env \<Rightarrow> string \<Rightarrow> string \<Rightarrow> string \<Rightarrow> string \<Rightarrow> data \<Rightarrow> event_loop
    \<Rightarrow> event_loop \<times> action list \<times> error option" where
  "deliver env clientId src dst ns d w =
     (case onMessage env clientId src dst ns d (receiver w) of
        (s, acts, e) \<Rightarrow> (\<lparr>receiver = s, timers = timers w @ set_timers acts\<rparr>, acts, e))"

fun run_timers :: "(nat \<times> string \<times> string) list \<Rightarrow> cast_device \<Rightarrow> outcome" where
  "run_timers [] s = (s, [], None)"
| "run_timers ((ms, c, src) # ts) s = and_then (load_timer c src s) (run_timers ts)"

definition elapse :: "nat \<Rightarrow> event_loop \<Rightarrow> event_loop \<times> action list \<times> error option" where
  "elapse dt w =
     (case run_timers (filter (\<lambda>(ms, c, src). ms \<le> dt) (timers w)) (receiver w) of
        (s, acts, e) \<Rightarrow>
          (\<lparr>receiver = s,
            timers = map (\<lambda>(ms, c, src). (ms - dt, c, src))
                       (filter (\<lambda>(ms, c, src). dt < ms) (timers w))\<rparr>,
           acts, e))"

section \<open>Identity store (device-registry.js)\<close>

record certificate =
  key :: string
  cert :: string

record registry_entry =
  deviceId :: string
  certificate :: certificate
  createdAt :: string
  lastSeen :: string

text \<open>
  \<^verbatim>\<open>_registry\<close>, keyed by the speaker's address, and the registry file (\<open>None\<close>: nothing
  written yet).
\<close>

record device_registry =
  registry :: "string \<rightharpoonup> registry_entry"
  disk :: "(string \<rightharpoonup> registry_entry) option"

text \<open>
  The library calls of \<^verbatim>\<open>getOrCreateDevice\<close>: \<^verbatim>\<open>uuidv4()\<close>, \<^verbatim>\<open>selfsigned.generate\<close> for a
  common name (private key and certificate, or an exception, which nothing catches), the
  two readings of the clock, and whether the file system takes the write of \<^verbatim>\<open>_save\<close>.
\<close>

record registry_env =
  reg_uuid :: string
  generate :: "string \<Rightarrow> error + string \<times> string"
  now_first :: string
  now_second :: string
  save_ok :: bool

text \<open>\<^verbatim>\<open>_save\<close>: a failed write is caught and logged.\<close>

definition save :: "registry_env \<Rightarrow> device_registry \<Rightarrow> device_registry" where
  "save env s = (if save_ok env then s\<lparr>disk := Some (registry s)\<rparr> else s)"

definition getOrCreateDevice :: "registry_env \<Rightarrow> string \<Rightarrow> string \<Rightarrow> device_registry
    \<Rightarrow> error + device_registry \<times> string \<times> certificate" where
  "getOrCreateDevice env ip friendlyName s =
     (case registry s ip of
        None \<Rightarrow>
          (case generate env friendlyName of
             Inl e \<Rightarrow> Inl e
           | Inr pems \<Rightarrow>
               let devId = filter (\<lambda>c. c \<noteq> CHR ''-'') (reg_uuid env);
                   entry = \<lparr>deviceId = devId, certificate = \<lparr>key = fst pems, cert = snd pems\<rparr>,
                            createdAt = now_first env, lastSeen = now_second env\<rparr>;
                   s1 = save env (s\<lparr>registry := (registry s)(ip \<mapsto> entry)\<rparr>)
               in Inr (s1, deviceId entry, certificate entry))
      | Some e \<Rightarrow>
          let s1 = save env (s\<lparr>registry := (registry s)(ip \<mapsto> e\<lparr>lastSeen := now_first env\<rparr>)\<rparr>)
          in Inr (s1, deviceId e, certificate e))"

section \<open>Concrete inputs\<close>

text \<open>
  Two envelopes with their protobuf encodings (fields 1 to 7 of \<^verbatim>\<open>CastMessage\<close>), and a
  byte stream of both frames cut into six chunks, one of them empty.
\<close>

definition demo_text :: cast_message where
  "demo_text = build_message ''a'' ''b'' ''n'' (Str ''p'')"

definition demo_binary :: cast_message where
  "demo_binary = build_message ''a'' ''b'' ''n'' (Buf [1, 2])"

definition demo_enc :: "cast_message \<Rightarrow> byte list" where
  "demo_enc m =
     (if payloadType m = 0
      then [0x08, 0x00, 0x12, 0x01, 0x61, 0x1a, 0x01, 0x62, 0x22, 0x01, 0x6e, 0x28, 0x00,
            0x32, 0x01, 0x70]
      else [0x08, 0x00, 0x12, 0x01, 0x61, 0x1a, 0x01, 0x62, 0x22, 0x01, 0x6e, 0x28, 0x01,
            0x3a, 0x02, 0x01, 0x02])"

definition demo_dec :: "byte list \<Rightarrow> cast_message option" where
  "demo_dec b =
     (if b = demo_enc demo_text then Some demo_text
      else if b = demo_enc demo_binary then Some demo_binary
      else None)"

definition demo_chunks :: "byte list list" where
  "demo_chunks =
     [[0x00, 0x00],
      [0x00, 0x10, 0x08, 0x00, 0x12, 0x01, 0x61, 0x1a, 0x01, 0x62, 0x22],
      [0x01, 0x6e, 0x28, 0x00, 0x32, 0x01, 0x70, 0x00, 0x00, 0x00],
      [],
      [0x11, 0x08, 0x00, 0x12, 0x01, 0x61, 0x1a, 0x01, 0x62, 0x22, 0x01, 0x6e, 0x28, 0x01,
       0x3a, 0x02, 0x01],
      [0x02]]"

text \<open>
  A sender's session: the texts of its messages with what \<^verbatim>\<open>JSON.parse\<close> makes of them, a
  receiver that has been started, and the same receiver launched, then loaded, then paused.
\<close>

definition demo_parse :: "data \<Rightarrow> error + js" where
  \<open>demo_parse d =
     (case d of
        Binary b \<Rightarrow> Inl SyntaxError
      | Utf8 t \<Rightarrow>
          (case map_of
             [(''{"type":"LAUNCH","appId":"CC1AD845","requestId":1}'',
               JObj [(''type'', JStr ''LAUNCH''), (''appId'', JStr ''CC1AD845''), (''requestId'', JNum 1)]),
              (''{"type":"LOAD","requestId":2,"media":{"contentId":"http://x/a.mp3"}}'',
               JObj [(''type'', JStr ''LOAD''), (''requestId'', JNum 2),
                     (''media'', JObj [(''contentId'', JStr ''http://x/a.mp3'')])]),
              (''{"type":"LOAD","requestId":6,"autoplay":null,"media":{"contentId":"http://x/b.mp3"}}'',
               JObj [(''type'', JStr ''LOAD''), (''requestId'', JNum 6), (''autoplay'', JNull),
                     (''media'', JObj [(''contentId'', JStr ''http://x/b.mp3'')])]),
              (''{"type":"LOAD","requestId":8,"media":{"contentType":"audio/mpeg"}}'',
               JObj [(''type'', JStr ''LOAD''), (''requestId'', JNum 8),
                     (''media'', JObj [(''contentType'', JStr ''audio/mpeg'')])]),
              (''{"type":"LOAD","requestId":9,"media":{"contentId":"http://x/c.mp3","contentType":{"toString":1}}}'',
               JObj [(''type'', JStr ''LOAD''), (''requestId'', JNum 9),
                     (''media'', JObj [(''contentId'', JStr ''http://x/c.mp3''),
                                       (''contentType'', JObj [(''toString'', JNum 1)])])]),
              (''{"type":"PAUSE","requestId":3}'',
               JObj [(''type'', JStr ''PAUSE''), (''requestId'', JNum 3)]),
              (''{"type":"SEEK","requestId":4,"currentTime":30}'',
               JObj [(''type'', JStr ''SEEK''), (''requestId'', JNum 4), (''currentTime'', JNum 30)]),
              (''{"type":"STOP","requestId":5}'',
               JObj [(''type'', JStr ''STOP''), (''requestId'', JNum 5)])] t of
             None \<Rightarrow> Inl SyntaxError
           | Some v \<Rightarrow> Inr v))\<close>

definition demo_env :: "unit env" where
  "demo_env = \<lparr>json_parse = demo_parse, uuidv4 = ''6f1c2d3e-0000-4000-8000-000000000002'',
               auth_decode = (\<lambda>d. case d of Binary b \<Rightarrow> Inr () | Utf8 t \<Rightarrow> Inl ProtocolError),
               handleAuthChallenge = (\<lambda>c. Inr None)\<rparr>"

definition demo_signed_env :: "unit env" where
  "demo_signed_env = demo_env\<lparr>handleAuthChallenge := (\<lambda>c. Inr (Some [0x12, 0x03, 0x0a, 0x01, 0x2a]))\<rparr>"

definition demo_device :: cast_device where
  "demo_device =
     start (new_device ''192.168.1.20'' ''0f1e2d3c4b5a69788796a5b4c3d2e1f0''
              ''6f1c2d3e-0000-4000-8000-000000000001'')"

definition demo_launched :: cast_device where
  \<open>demo_launched =
     run [Message demo_env ''client-1'' ''sender-0'' ''receiver-0'' CASTV2_NS_RECEIVER
            (Utf8 ''{"type":"LAUNCH","appId":"CC1AD845","requestId":1}'')]
       demo_device\<close>

definition demo_loaded :: cast_device where
  \<open>demo_loaded =
     run [Message demo_env ''client-1'' ''sender-0'' ''receiver-0'' CASTV2_NS_RECEIVER
            (Utf8 ''{"type":"LAUNCH","appId":"CC1AD845","requestId":1}''),
          Message demo_env ''client-1'' ''sender-0'' ''transport-0f1e2d3c'' CASTV2_NS_MEDIA
            (Utf8 ''{"type":"LOAD","requestId":2,"media":{"contentId":"http://x/a.mp3"}}'')]
       demo_device\<close>

definition demo_paused :: cast_device where
  \<open>demo_paused =
     run [Message demo_env ''client-1'' ''sender-0'' ''transport-0f1e2d3c'' CASTV2_NS_MEDIA
            (Utf8 ''{"type":"PAUSE","requestId":3}'')]
       demo_loaded\<close>

definition demo_registry_env :: registry_env where
  "demo_registry_env =
     \<lparr>reg_uuid = ''0f1e2d3c-4b5a-4978-8796-a5b4c3d2e1f0'',
      generate = (\<lambda>cn. Inr (''KEY '' @ cn, ''CERT '' @ cn)),
      now_first = ''2026-02-22T10:00:00.000Z'', now_second = ''2026-02-22T10:00:00.001Z'',
      save_ok = True\<rparr>"

definition demo_registry_env_later :: registry_env where
  "demo_registry_env_later =
     \<lparr>reg_uuid = ''99999999-9999-4999-8999-999999999999'',
      generate = (\<lambda>cn. Inl RangeError),
      now_first = ''2026-02-23T08:30:00.000Z'', now_second = ''2026-02-23T08:30:00.001Z'',
      save_ok = False\<rparr>"

section \<open>Framing\<close>

declare onData_loop.simps [simp del]

lemma be32_digits:
  fixes n :: nat
  shows "n div 16777216 * 16777216 + n div 65536 mod 256 * 65536 + n div 256 mod 256 * 256
           + n mod 256 = n"
proof -
  define a where "a = n div 256"
  define b where "b = a div 256"
  define c where "c = b div 256"
  define n0 where "n0 = n mod 256"
  define a0 where "a0 = a mod 256"
  define b0 where "b0 = b mod 256"
  have n: "n = a * 256 + n0" by (simp add: a_def n0_def)
  have a: "a = b * 256 + a0" by (simp add: b_def a0_def)
  have b: "b = c * 256 + b0" by (simp add: c_def b0_def)
  have d2: "n div 65536 = b" by (simp add: b_def a_def div_mult2_eq [symmetric])
  have d3: "n div 16777216 = c" by (simp add: c_def b_def a_def div_mult2_eq [symmetric])
  have "c * 16777216 + b0 * 65536 + a0 * 256 + n0 = n"
    using n a b by linarith
  then show ?thesis
    by (simp add: d2 d3 a_def [symmetric] a0_def [symmetric] b0_def [symmetric] n0_def [symmetric])
qed

lemma read_write_UInt32BE:
  "writeUInt32BE n = Inr h \<Longrightarrow> readUInt32BE (h @ rest) = n"
  by (auto simp: writeUInt32BE_def readUInt32BE_def unat_of_nat be32_digits split: if_splits)

lemma writeUInt32BE_length: "writeUInt32BE n = Inr h \<Longrightarrow> length h = 4"
  by (auto simp: writeUInt32BE_def split: if_splits)

text \<open>A reader that has gone through the loop cannot make further progress.\<close>

lemma onData_loop_stuck:
  "onData_loop dec r = (r', out) \<Longrightarrow> onData_loop dec r' = (r', [])"
proof (induction dec r arbitrary: r' out rule: onData_loop.induct)
  case (1 dec r)
  show ?case
  proof (cases "read_prefix r")
    case None
    with "1.prems" have "r' = r" by (simp add: onData_loop.simps [of dec r])
    with None show ?thesis by (simp add: onData_loop.simps [of dec r])
  next
    case (Some p)
    obtain b n where p: "p = (b, n)" by (cases p)
    show ?thesis
    proof (cases "length b < n")
      case True
      with Some p "1.prems" have "r' = \<lparr>buffer = b, expectedLength = Some n\<rparr>"
        by (simp add: onData_loop.simps [of dec r])
      with True show ?thesis
        by (simp add: onData_loop.simps [of dec "\<lparr>buffer = b, expectedLength = Some n\<rparr>"]
              read_prefix_def)
    next
      case False
      obtain r2 o2 where
        rec: "onData_loop dec \<lparr>buffer = drop n b, expectedLength = None\<rparr> = (r2, o2)"
        by (cases "onData_loop dec \<lparr>buffer = drop n b, expectedLength = None\<rparr>")
      with Some p False "1.prems" have "r' = r2"
        by (simp add: onData_loop.simps [of dec r])
      with "1.IH" [OF Some p [symmetric] False refl rec] show ?thesis by simp
    qed
  qed
qed

lemma read_prefix_append:
  "read_prefix r = Some (b, n) \<Longrightarrow> read_prefix (r\<lparr>buffer := buffer r @ c\<rparr>) = Some (b @ c, n)"
  by (auto simp: read_prefix_def readUInt32BE_def nth_append split: option.splits if_splits)

text \<open>
  Bytes that arrive later can be handed over at once: the loop on \<open>buffer r @ c\<close> does what
  the loop on \<open>buffer r\<close> does, and then what the loop does once \<open>c\<close> is appended.
\<close>

lemma onData_loop_append:
  "onData_loop dec r = (r1, o1) \<Longrightarrow>
   onData_loop dec (r\<lparr>buffer := buffer r @ c\<rparr>) =
     (let (r2, o2) = onData_loop dec (r1\<lparr>buffer := buffer r1 @ c\<rparr>) in (r2, o1 @ o2))"
proof (induction dec r arbitrary: r1 o1 rule: onData_loop.induct)
  case (1 dec r)
  show ?case
  proof (cases "read_prefix r")
    case None
    with "1.prems" have "r1 = r" "o1 = []" by (simp_all add: onData_loop.simps [of dec r])
    then show ?thesis by simp
  next
    case (Some p)
    obtain b n where p: "p = (b, n)" by (cases p)
    from Some p have pre: "read_prefix (r\<lparr>buffer := buffer r @ c\<rparr>) = Some (b @ c, n)"
      by (simp add: read_prefix_append)
    show ?thesis
    proof (cases "length b < n")
      case True
      with Some p "1.prems"
      have r1: "r1 = \<lparr>buffer = b, expectedLength = Some n\<rparr>" and o1: "o1 = []"
        by (simp_all add: onData_loop.simps [of dec r])
      have "read_prefix (r1\<lparr>buffer := buffer r1 @ c\<rparr>) = Some (b @ c, n)"
        by (simp add: r1 read_prefix_def)
      with pre show ?thesis
        by (simp add: o1 onData_loop.simps [of dec "r\<lparr>buffer := buffer r @ c\<rparr>"]
              onData_loop.simps [of dec "r1\<lparr>buffer := buffer r1 @ c\<rparr>"])
    next
      case False
      obtain r' out where
        rec: "onData_loop dec \<lparr>buffer = drop n b, expectedLength = None\<rparr> = (r', out)"
        by (cases "onData_loop dec \<lparr>buffer = drop n b, expectedLength = None\<rparr>")
      from Some p False rec "1.prems"
      have r1: "r1 = r'"
        and o1: "o1 = (case dec (take n b) of None \<Rightarrow> [] | Some m \<Rightarrow> [m]) @ out"
        by (simp_all add: onData_loop.simps [of dec r])
      from "1.IH" [OF Some p [symmetric] False refl rec]
      have ih: "onData_loop dec \<lparr>buffer = drop n b @ c, expectedLength = None\<rparr> =
                  (let (r2, o2) = onData_loop dec (r'\<lparr>buffer := buffer r' @ c\<rparr>)
                   in (r2, out @ o2))"
        by simp
      from False have "\<not> length (b @ c) < n" by simp
      with pre False show ?thesis
        by (simp add: onData_loop.simps [of dec "r\<lparr>buffer := buffer r @ c\<rparr>"] ih r1 o1
              split: prod.splits)
    qed
  qed
qed

lemma onData_loop_frame:
  assumes "writeUInt32BE (length body) = Inr h"
  shows "onData_loop dec \<lparr>buffer = h @ body @ rest, expectedLength = None\<rparr> =
           (let (r', out) = onData_loop dec \<lparr>buffer = rest, expectedLength = None\<rparr>
            in (r', (case dec body of None \<Rightarrow> [] | Some m \<Rightarrow> [m]) @ out))"
proof -
  from assms have len: "length h = 4" by (rule writeUInt32BE_length)
  from assms have rd: "readUInt32BE (h @ body @ rest) = length body"
    by (rule read_write_UInt32BE)
  have "read_prefix \<lparr>buffer = h @ body @ rest, expectedLength = None\<rparr> =
          Some (body @ rest, length body)"
    by (simp add: read_prefix_def len rd)
  then show ?thesis
    by (simp add: onData_loop.simps [of dec "\<lparr>buffer = h @ body @ rest, expectedLength = None\<rparr>"])
qed

lemma onData_all_concat:
  "onData_loop dec r = (r, []) \<Longrightarrow>
   onData_all dec r chunks = onData_loop dec (r\<lparr>buffer := buffer r @ concat chunks\<rparr>)"
proof (induction chunks arbitrary: r)
  case Nil
  then show ?case by simp
next
  case (Cons c cs)
  obtain r1 o1 where step: "onData_loop dec (r\<lparr>buffer := buffer r @ c\<rparr>) = (r1, o1)"
    by (cases "onData_loop dec (r\<lparr>buffer := buffer r @ c\<rparr>)")
  then have stuck: "onData_loop dec r1 = (r1, [])" by (rule onData_loop_stuck)
  from onData_loop_append [OF step, of "concat cs"]
  have "onData_loop dec (r\<lparr>buffer := buffer r @ c @ concat cs\<rparr>) =
          (let (r2, o2) = onData_loop dec (r1\<lparr>buffer := buffer r1 @ concat cs\<rparr>)
           in (r2, o1 @ o2))"
    by simp
  with Cons.IH [OF stuck] step show ?case
    by (simp add: onData_def)
qed

lemma send_SomeD:
  "send enc clients cid src dst ns d = Inr (Some f) \<Longrightarrow>
   \<exists>h. writeUInt32BE (length (enc (build_message src dst ns d))) = Inr h
      \<and> f = h @ enc (build_message src dst ns d)"
  by (auto simp: send_def Let_def split: if_splits sum.splits)

lemma new_reader_stuck: "onData_loop dec new_reader = (new_reader, [])"
  unfolding new_reader_def
  by (simp add: onData_loop.simps [of dec "\<lparr>buffer = [], expectedLength = None\<rparr>"] read_prefix_def)

lemma frames_decode:
  assumes "list_all2 (\<lambda>(src, dst, ns, d) f. send enc clients cid src dst ns d = Inr (Some f))
             reqs frames"
      and "\<forall>(src, dst, ns, d) \<in> set reqs.
             dec (enc (build_message src dst ns d)) = Some (build_message src dst ns d)"
  shows "onData_loop dec \<lparr>buffer = concat frames, expectedLength = None\<rparr> =
           (new_reader, map (\<lambda>(src, dst, ns, d). build_message src dst ns d) reqs)"
  using assms
proof (induction rule: list_all2_induct)
  case Nil
  show ?case using new_reader_stuck [of dec] by (simp add: new_reader_def)
next
  case (Cons rq reqs f frames)
  obtain src dst ns d where rq: "rq = (src, dst, ns, d)" by (cases rq)
  from Cons.hyps(1) rq obtain h where
    h: "writeUInt32BE (length (enc (build_message src dst ns d))) = Inr h"
    and f: "f = h @ enc (build_message src dst ns d)"
    using send_SomeD by fastforce
  from Cons.prems rq
  have dec: "dec (enc (build_message src dst ns d)) = Some (build_message src dst ns d)"
    by simp
  from Cons.prems have rest: "\<forall>(src, dst, ns, d) \<in> set reqs.
             dec (enc (build_message src dst ns d)) = Some (build_message src dst ns d)"
    by simp
  from onData_loop_frame [OF h, of dec "concat frames"] Cons.IH [OF rest] dec
  show ?case by (simp add: f rq)
qed

text \<open>
  C1 (framing round-trip). Let a connection's peer call \<open>send\<close> for a sequence of requests,
  each call writing a frame (the four-byte big-endian length of the encoded envelope, then
  the encoded envelope), and let the decoder invert the encoder on these envelopes. However
  the concatenation of the frames is cut into chunks, a fresh \<open>PacketReader\<close> fed the chunks
  in order hands over exactly the envelopes that were sent, in the order they were sent, and
  ends with an empty buffer and no length pending.
\<close>

theorem framing_round_trip:
  assumes "list_all2 (\<lambda>(src, dst, ns, d) f. send enc clients cid src dst ns d = Inr (Some f))
             reqs frames"
      and "\<forall>(src, dst, ns, d) \<in> set reqs.
             dec (enc (build_message src dst ns d)) = Some (build_message src dst ns d)"
      and "concat chunks = concat frames"
  shows "onData_all dec new_reader chunks =
           (new_reader, map (\<lambda>(src, dst, ns, d). build_message src dst ns d) reqs)"
proof -
  have "onData_all dec new_reader chunks =
          onData_loop dec (new_reader\<lparr>buffer := buffer new_reader @ concat chunks\<rparr>)"
    by (rule onData_all_concat [OF new_reader_stuck])
  also have "\<dots> = onData_loop dec \<lparr>buffer = concat frames, expectedLength = None\<rparr>"
    by (simp add: new_reader_def assms(3))
  also have "\<dots> = (new_reader, map (\<lambda>(src, dst, ns, d). build_message src dst ns d) reqs)"
    by (rule frames_decode [OF assms(1,2)])
  finally show ?thesis .
qed

theorem framing_round_trip_witness:
  "send demo_enc [''client-1''] ''client-1'' ''a'' ''b'' ''n'' (Str ''p'') =
     Inr (Some ([0x00, 0x00, 0x00, 0x10] @ demo_enc demo_text))
   \<and> send demo_enc [''client-1''] ''client-1'' ''a'' ''b'' ''n'' (Buf [1, 2]) =
     Inr (Some ([0x00, 0x00, 0x00, 0x11] @ demo_enc demo_binary))
   \<and> concat demo_chunks =
       ([0x00, 0x00, 0x00, 0x10] @ demo_enc demo_text)
       @ ([0x00, 0x00, 0x00, 0x11] @ demo_enc demo_binary)
   \<and> onData_all demo_dec new_reader demo_chunks = (new_reader, [demo_text, demo_binary])"
proof -
  have s1: "send demo_enc [''client-1''] ''client-1'' ''a'' ''b'' ''n'' (Str ''p'') =
     Inr (Some ([0x00, 0x00, 0x00, 0x10] @ demo_enc demo_text))"
    by (simp add: send_def demo_enc_def demo_text_def build_message_def writeUInt32BE_def)
  have s2: "send demo_enc [''client-1''] ''client-1'' ''a'' ''b'' ''n'' (Buf [1, 2]) =
     Inr (Some ([0x00, 0x00, 0x00, 0x11] @ demo_enc demo_binary))"
    by (simp add: send_def demo_enc_def demo_binary_def build_message_def writeUInt32BE_def)
  have c: "concat demo_chunks =
       ([0x00, 0x00, 0x00, 0x10] @ demo_enc demo_text)
       @ ([0x00, 0x00, 0x00, 0x11] @ demo_enc demo_binary)"
    by (simp add: demo_chunks_def demo_enc_def demo_text_def demo_binary_def build_message_def)
  have d: "\<forall>(src, dst, ns, d) \<in> set [(''a'', ''b'', ''n'', Str ''p''), (''a'', ''b'', ''n'', Buf [1, 2])].
             demo_dec (demo_enc (build_message src dst ns d)) = Some (build_message src dst ns d)"
    by (simp add: demo_dec_def demo_enc_def demo_text_def demo_binary_def build_message_def)
  have l: "list_all2
             (\<lambda>(src, dst, ns, d) f.
                 send demo_enc [''client-1''] ''client-1'' src dst ns d = Inr (Some f))
             [(''a'', ''b'', ''n'', Str ''p''), (''a'', ''b'', ''n'', Buf [1, 2])]
             [[0x00, 0x00, 0x00, 0x10] @ demo_enc demo_text,
              [0x00, 0x00, 0x00, 0x11] @ demo_enc demo_binary]"
    using s1 s2 by simp
  have c': "concat demo_chunks =
       concat [[0x00, 0x00, 0x00, 0x10] @ demo_enc demo_text,
               [0x00, 0x00, 0x00, 0x11] @ demo_enc demo_binary]"
    using c by simp
  from framing_round_trip [OF l d c'] s1 s2 c show ?thesis
    by (simp add: demo_text_def demo_binary_def)
qed

section \<open>Receiver handlers\<close>

text \<open>The state a handler leaves, through the sequencing and \<^verbatim>\<open>try/catch\<close> of the model.\<close>

lemma fst_server_send: "fst (server_send c src dst ns p s) = s"
  by (simp add: server_send_def)

lemma fst_log_line: "fst (log_line lvl vs s) = s"
  by (simp add: log_line_def)

lemma log_line_ok: "list_all printable vs \<Longrightarrow> log_line lvl vs s = (s, [Log lvl], None)"
  by (simp add: log_line_def)

lemma log_line_fail: "\<not> list_all printable vs \<Longrightarrow> log_line lvl vs s = (s, [], Some TypeError)"
  by (simp add: log_line_def)

lemma fst_and_then:
  "fst (and_then r f) = (if snd (snd r) = None then fst (f (fst r)) else fst r)"
  by (cases r) (auto simp: and_then_def split: option.splits prod.splits)

lemma fst_try_catch_log:
  "fst (try_catch r (\<lambda>s'. (s', acts, None))) = fst r"
  by (cases r) (auto simp: try_catch_def split: option.splits)

lemma sendMediaStatus_state:
  "fst (sendMediaStatus c src rid ps s) =
     (case ps of None \<Rightarrow> s
      | Some p \<Rightarrow> s\<lparr>mediaStatus := map_option (\<lambda>ms. ms\<lparr>playerState := p\<rparr>) (mediaStatus s)\<rparr>)"
  by (cases "mediaStatus s"; cases ps) (simp_all add: sendMediaStatus_def server_send_def Let_def)

lemma sendReceiverStatus_state: "fst (sendReceiverStatus c src rid s) = s"
  by (simp add: sendReceiverStatus_def server_send_def)

lemma emitted_append: "emitted (xs @ ys) = emitted xs @ emitted ys"
  by (induction xs rule: emitted.induct) simp_all

lemma sends_append: "sends (xs @ ys) = sends xs @ sends ys"
  by (induction xs rule: sends.induct) simp_all

text \<open>
  \<^verbatim>\<open>PLAY\<close>, \<^verbatim>\<open>PAUSE\<close>, \<^verbatim>\<open>STOP\<close> and \<^verbatim>\<open>SEEK\<close> on the media namespace change nothing but
  the player state of an existing record; \<^verbatim>\<open>STOP\<close> on the receiver namespace clears the
  application flag and the record.
\<close>

lemma media_state_change:
  assumes "json_parse env d = Inr payload"
  shows "js_prop payload ''type'' = Inr (JStr ''PLAY'') \<Longrightarrow>
           fst (handleMedia env c src dst d s) =
             s\<lparr>mediaStatus := map_option (\<lambda>ms. ms\<lparr>playerState := PLAYING\<rparr>) (mediaStatus s)\<rparr>"
    and "js_prop payload ''type'' = Inr (JStr ''PAUSE'') \<Longrightarrow>
           fst (handleMedia env c src dst d s) =
             s\<lparr>mediaStatus := map_option (\<lambda>ms. ms\<lparr>playerState := PAUSED\<rparr>) (mediaStatus s)\<rparr>"
    and "js_prop payload ''type'' = Inr (JStr ''STOP'') \<Longrightarrow>
           fst (handleMedia env c src dst d s) =
             s\<lparr>mediaStatus := map_option (\<lambda>ms. ms\<lparr>playerState := IDLE\<rparr>) (mediaStatus s)\<rparr>"
    and "js_prop payload ''type'' = Inr (JStr ''SEEK'') \<Longrightarrow>
           fst (handleMedia env c src dst d s) =
             s\<lparr>mediaStatus := map_option (\<lambda>ms. ms\<lparr>playerState := PLAYING\<rparr>) (mediaStatus s)\<rparr>"
  using assms
  by (simp_all add: handleMedia_def fst_try_catch_log fst_and_then log_line_ok
        sendMediaStatus_state)

lemma receiver_stop_state:
  assumes "json_parse env d = Inr payload" and "js_prop payload ''type'' = Inr (JStr ''STOP'')"
  shows "fst (handleReceiver env c src d s) = s\<lparr>appRunning := False, mediaStatus := None\<rparr>"
  using assms
  by (simp add: handleReceiver_def fst_try_catch_log fst_and_then log_line_ok handleStop_def
        sendReceiverStatus_state)

lemma media_seek_actions:
  assumes "json_parse env d = Inr payload" and "js_prop payload ''type'' = Inr (JStr ''SEEK'')"
  shows "emitted (fst (snd (handleMedia env c src dst d s))) =
           [SeekEv (speakerIp s) (get payload ''currentTime'')]"
  using assms
  by (simp add: handleMedia_def try_catch_def and_then_def log_line_ok sendMediaStatus_def
        server_send_def Let_def split: option.splits)

text \<open>
  \<^verbatim>\<open>PLAY\<close>, \<^verbatim>\<open>PAUSE\<close>, \<^verbatim>\<open>STOP\<close> and \<^verbatim>\<open>SEEK\<close> on the media namespace while the server is
  up, in full.
\<close>

lemma media_control_outcome:
  assumes "json_parse env d = Inr payload" and "server_up s"
  shows "js_prop payload ''type'' = Inr (JStr ''PLAY'') \<Longrightarrow>
           handleMedia env c src dst d s =
             (s\<lparr>mediaStatus := map_option (\<lambda>ms. ms\<lparr>playerState := PLAYING\<rparr>) (mediaStatus s)\<rparr>,
              [Log Debug, Emit (PlayEv (speakerIp s)),
               Send c (transportId s) src CASTV2_NS_MEDIA
                 (MediaStatus (or_else (get payload ''requestId'') (JNum 0))
                    (case mediaStatus s of None \<Rightarrow> [] | Some ms \<Rightarrow> [ms\<lparr>playerState := PLAYING\<rparr>]))],
              None)"
    and "js_prop payload ''type'' = Inr (JStr ''PAUSE'') \<Longrightarrow>
           handleMedia env c src dst d s =
             (s\<lparr>mediaStatus := map_option (\<lambda>ms. ms\<lparr>playerState := PAUSED\<rparr>) (mediaStatus s)\<rparr>,
              [Log Debug, Emit (PauseEv (speakerIp s)),
               Send c (transportId s) src CASTV2_NS_MEDIA
                 (MediaStatus (or_else (get payload ''requestId'') (JNum 0))
                    (case mediaStatus s of None \<Rightarrow> [] | Some ms \<Rightarrow> [ms\<lparr>playerState := PAUSED\<rparr>]))],
              None)"
    and "js_prop payload ''type'' = Inr (JStr ''STOP'') \<Longrightarrow>
           handleMedia env c src dst d s =
             (s\<lparr>mediaStatus := map_option (\<lambda>ms. ms\<lparr>playerState := IDLE\<rparr>) (mediaStatus s)\<rparr>,
              [Log Debug, Emit (StopEv (speakerIp s)),
               Send c (transportId s) src CASTV2_NS_MEDIA
                 (MediaStatus (or_else (get payload ''requestId'') (JNum 0))
                    (case mediaStatus s of None \<Rightarrow> [] | Some ms \<Rightarrow> [ms\<lparr>playerState := IDLE\<rparr>]))],
              None)"
    and "js_prop payload ''type'' = Inr (JStr ''SEEK'') \<Longrightarrow>
           handleMedia env c src dst d s =
             (s\<lparr>mediaStatus := map_option (\<lambda>ms. ms\<lparr>playerState := PLAYING\<rparr>) (mediaStatus s)\<rparr>,
              [Log Debug, Emit (SeekEv (speakerIp s) (get payload ''currentTime'')),
               Send c (transportId s) src CASTV2_NS_MEDIA
                 (MediaStatus (or_else (get payload ''requestId'') (JNum 0))
                    (case mediaStatus s of None \<Rightarrow> [] | Some ms \<Rightarrow> [ms\<lparr>playerState := PLAYING\<rparr>]))],
              None)"
  using assms
  by (cases "mediaStatus s";
      simp add: handleMedia_def try_catch_def and_then_def log_line_ok sendMediaStatus_def
        server_send_def Let_def)+

text \<open>A \<^verbatim>\<open>LOAD\<close> and its timer, in full.\<close>

lemma media_load_outcome:
  assumes "json_parse env d = Inr payload" and "js_prop payload ''type'' = Inr (JStr ''LOAD'')"
      and "has_contentId payload"
  shows "handleMedia env c src dst d s =
     (let ms = new_media_status (js_increment (mediaRequestId s)) payload;
          s1 = s\<lparr>mediaRequestId := js_increment (mediaRequestId s), mediaStatus := Some ms\<rparr>
      in if server_up s then
           (s1, [Log Debug, Log Info, Emit (LoadEv (load_event_of (speakerIp s) payload)),
                 Send c (transportId s) src CASTV2_NS_MEDIA
                   (MediaStatus (or_else (get payload ''requestId'') (JNum 0)) [ms]),
                 SetTimeout 500 c src], None)
         else (s1, [Log Debug, Log Info, Emit (LoadEv (load_event_of (speakerIp s) payload)),
                    Log Warning], None))"
  using assms
  by (simp add: handleMedia_def handleMediaLoad_def has_contentId_def try_catch_def and_then_def
        log_line_ok sendMediaStatus_def server_send_def Let_def new_media_status_def)

lemma media_load_dropped:
  assumes "json_parse env d = Inr payload" and "js_prop payload ''type'' = Inr (JStr ''LOAD'')"
      and "\<not> has_contentId payload"
  shows "handleMedia env c src dst d s = (s, [Log Debug, Log Warning], None)"
proof (cases "truthy (get payload ''media'') \<and> truthy (get (get payload ''media'') ''contentId'')")
  case False
  with assms(1,2) show ?thesis
    by (auto simp add: handleMedia_def handleMediaLoad_def try_catch_def and_then_def log_line_ok
          Let_def)
next
  case True
  with assms(3)
  have "\<not> list_all printable [get (get payload ''media'') ''contentId'',
            or_else (get (get payload ''media'') ''contentType'') (JStr ''unknown'')]"
    by (auto simp: has_contentId_def)
  with True assms(1,2) show ?thesis
    by (simp add: handleMedia_def handleMediaLoad_def try_catch_def and_then_def log_line_ok
          log_line_fail Let_def)
qed

lemma load_timer_outcome:
  "load_timer c src t =
     (let t1 = t\<lparr>mediaStatus := map_option (\<lambda>ms. ms\<lparr>playerState := PLAYING\<rparr>) (mediaStatus t)\<rparr>
      in if server_up t then
           (t1, [Send c (transportId t) src CASTV2_NS_MEDIA
                   (MediaStatus (JNum 0) (case mediaStatus t1 of None \<Rightarrow> [] | Some ms \<Rightarrow> [ms]))],
            None)
         else (t1, [], Some TypeError))"
  by (cases "mediaStatus t")
     (simp_all add: load_timer_def sendMediaStatus_def server_send_def Let_def or_else_def)

lemma is_load_state:
  assumes "is_load env d"
  shows "\<exists>payload. fst (handleMedia env c src dst d s) =
           s\<lparr>mediaRequestId := js_increment (mediaRequestId s),
             mediaStatus := Some (new_media_status (js_increment (mediaRequestId s)) payload)\<rparr>"
proof -
  from assms obtain payload where p: "json_parse env d = Inr payload"
    and t: "js_prop payload ''type'' = Inr (JStr ''LOAD'')"
    and h: "has_contentId payload"
    by (auto simp: is_load_def split: sum.splits)
  show ?thesis
    by (rule exI [of _ payload]) (simp add: media_load_outcome [OF p t h] Let_def)
qed

text \<open>The device-authentication handler while the server is up.\<close>

lemma deviceAuth_outcome:
  assumes "server_up s"
  shows "handleDeviceAuth env c src d s =
     (s,
      (case auth_decode env d of
         Inl e \<Rightarrow> [Log Info, Log Error, Send c ''receiver-0'' src CASTV2_NS_DEVICEAUTH (AuthError 0)]
       | Inr challenge \<Rightarrow>
           (case handleAuthChallenge env challenge of
              Inr (Some buf) \<Rightarrow>
                [Log Info, Log Debug,
                 Send c ''receiver-0'' src CASTV2_NS_DEVICEAUTH (AuthResponse buf), Log Info]
            | _ \<Rightarrow>
                [Log Info, Log Debug, Log Error,
                 Send c ''receiver-0'' src CASTV2_NS_DEVICEAUTH (AuthError 0)])),
      None)"
  using assms
  by (simp add: handleDeviceAuth_def and_then_def try_catch_def server_send_def
        split: sum.splits option.splits)

lemma handleDeviceAuth_state: "fst (handleDeviceAuth env c src d s) = s"
  by (simp add: handleDeviceAuth_def and_then_def try_catch_def server_send_def
        split: sum.splits option.splits)

text \<open>The media handlers neither read nor write the application flag.\<close>

lemma sendMediaStatus_appRunning:
  "sendMediaStatus c src rid ps (s\<lparr>appRunning := b\<rparr>) =
     with_appRunning b (sendMediaStatus c src rid ps s)"
  by (cases "mediaStatus s"; cases ps)
     (simp_all add: sendMediaStatus_def server_send_def with_appRunning_def Let_def)

lemma log_line_appRunning:
  "log_line lvl vs (s\<lparr>appRunning := b\<rparr>) = with_appRunning b (log_line lvl vs s)"
  by (simp add: log_line_def with_appRunning_def)

lemma and_then_appRunning:
  assumes "r' = with_appRunning b r"
      and "\<And>t. f (t\<lparr>appRunning := b\<rparr>) = with_appRunning b (f t)"
  shows "and_then r' f = with_appRunning b (and_then r f)"
proof -
  obtain s acts e where r: "r = (s, acts, e)" by (cases r)
  obtain s' acts' e' where f: "f s = (s', acts', e')" by (cases "f s")
  show ?thesis
    by (cases e) (simp_all add: r and_then_def with_appRunning_def assms f)
qed

lemma try_catch_appRunning:
  assumes "r' = with_appRunning b r"
      and "\<And>t. h (t\<lparr>appRunning := b\<rparr>) = with_appRunning b (h t)"
  shows "try_catch r' h = with_appRunning b (try_catch r h)"
proof -
  obtain s acts e where r: "r = (s, acts, e)" by (cases r)
  obtain s' acts' e' where h: "h s = (s', acts', e')" by (cases "h s")
  show ?thesis
    by (cases e) (simp_all add: r try_catch_def with_appRunning_def assms h)
qed

lemma handleMediaLoad_appRunning:
  "handleMediaLoad c src payload (s\<lparr>appRunning := b\<rparr>) =
     with_appRunning b (handleMediaLoad c src payload s)"
proof (cases "\<not> truthy (get payload ''media'') \<or> \<not> truthy (get (get payload ''media'') ''contentId'')")
  case True
  then show ?thesis by (auto simp: handleMediaLoad_def with_appRunning_def Let_def)
next
  case False
  have inner: "\<And>t. and_then (sendMediaStatus c src (get payload ''requestId'') (Some BUFFERING)
                          (t\<lparr>appRunning := b\<rparr>))
                 (\<lambda>s3. (s3, [SetTimeout 500 c src], None)) =
               with_appRunning b
                 (and_then (sendMediaStatus c src (get payload ''requestId'') (Some BUFFERING) t)
                    (\<lambda>s3. (s3, [SetTimeout 500 c src], None)))"
    by (rule and_then_appRunning) (simp_all add: sendMediaStatus_appRunning with_appRunning_def)
  have body: "\<And>u. and_then
          (u\<lparr>appRunning := b, mediaRequestId := js_increment (mediaRequestId u),
             mediaStatus := Some (new_media_status (js_increment (mediaRequestId u)) payload)\<rparr>,
           [Emit (LoadEv (load_event_of (speakerIp u) payload))], None)
          (\<lambda>s2. and_then
                   (sendMediaStatus c src (get payload ''requestId'') (Some BUFFERING) s2)
                   (\<lambda>s3. (s3, [SetTimeout 500 c src], None))) =
        with_appRunning b
          (and_then
             (u\<lparr>mediaRequestId := js_increment (mediaRequestId u),
                mediaStatus := Some (new_media_status (js_increment (mediaRequestId u)) payload)\<rparr>,
              [Emit (LoadEv (load_event_of (speakerIp u) payload))], None)
             (\<lambda>s2. and_then
                      (sendMediaStatus c src (get payload ''requestId'') (Some BUFFERING) s2)
                      (\<lambda>s3. (s3, [SetTimeout 500 c src], None))))"
    by (rule and_then_appRunning) (simp_all add: inner with_appRunning_def)
  have "and_then
          (log_line Info [get (get payload ''media'') ''contentId'',
                          or_else (get (get payload ''media'') ''contentType'') (JStr ''unknown'')]
             (s\<lparr>appRunning := b\<rparr>))
          (\<lambda>s0.
             let n = js_increment (mediaRequestId s0);
                 s1 = s0\<lparr>mediaRequestId := n, mediaStatus := Some (new_media_status n payload)\<rparr>
             in and_then
                  (s1, [Emit (LoadEv (load_event_of (speakerIp s0) payload))], None)
                  (\<lambda>s2. and_then
                           (sendMediaStatus c src (get payload ''requestId'')
                              (Some BUFFERING) s2)
                           (\<lambda>s3. (s3, [SetTimeout 500 c src], None)))) =
        with_appRunning b
          (and_then
             (log_line Info [get (get payload ''media'') ''contentId'',
                             or_else (get (get payload ''media'') ''contentType'') (JStr ''unknown'')] s)
             (\<lambda>s0.
                let n = js_increment (mediaRequestId s0);
                    s1 = s0\<lparr>mediaRequestId := n, mediaStatus := Some (new_media_status n payload)\<rparr>
                in and_then
                     (s1, [Emit (LoadEv (load_event_of (speakerIp s0) payload))], None)
                     (\<lambda>s2. and_then
                              (sendMediaStatus c src (get payload ''requestId'')
                                 (Some BUFFERING) s2)
                              (\<lambda>s3. (s3, [SetTimeout 500 c src], None)))))"
    by (rule and_then_appRunning) (simp_all add: log_line_appRunning body Let_def)
  with False show ?thesis
    by (simp add: handleMediaLoad_def Let_def)
qed

lemma emit_then_status_appRunning:
  "and_then (s\<lparr>appRunning := b\<rparr>, acts, None) (sendMediaStatus c src rid ps) =
     with_appRunning b (and_then (s, acts, None) (sendMediaStatus c src rid ps))"
  by (rule and_then_appRunning) (simp_all add: sendMediaStatus_appRunning with_appRunning_def)

lemma media_dispatch_appRunning:
  fixes t :: js
  defines "f \<equiv> \<lambda>c src payload.
                  (if t = JStr ''LOAD'' then handleMediaLoad c src payload
                    else if t = JStr ''PLAY'' then
                      (\<lambda>s'. and_then (s', [Emit (PlayEv (speakerIp s'))], None)
                               (sendMediaStatus c src (get payload ''requestId'')
                                  (Some PLAYING)))
                    else if t = JStr ''PAUSE'' then
                      (\<lambda>s'. and_then (s', [Emit (PauseEv (speakerIp s'))], None)
                               (sendMediaStatus c src (get payload ''requestId'')
                                  (Some PAUSED)))
                    else if t = JStr ''STOP'' then
                      (\<lambda>s'. and_then (s', [Emit (StopEv (speakerIp s'))], None)
                               (sendMediaStatus c src (get payload ''requestId'')
                                  (Some IDLE)))
                    else if t = JStr ''SEEK'' then
                      (\<lambda>s'. and_then
                               (s', [Emit (SeekEv (speakerIp s') (get payload ''currentTime''))],
                                None)
                               (sendMediaStatus c src (get payload ''requestId'')
                                  (Some PLAYING)))
                    else if t = JStr ''GET_STATUS'' then
                      (\<lambda>s'. sendMediaStatus c src (get payload ''requestId'')
                               (Some (case mediaStatus s' of None \<Rightarrow> IDLE
                                      | Some ms \<Rightarrow> playerState ms)) s')
                    else if t = JStr ''SET_VOLUME'' then
                      (\<lambda>s'. and_then
                               (if truthy (get payload ''volume'') then
                                  (s', [Emit (VolumeEv (speakerIp s')
                                                (get (get payload ''volume'') ''level'')
                                                (get (get payload ''volume'') ''muted''))], None)
                                else (s', [], None))
                               (sendMediaStatus c src (get payload ''requestId'') None))
                    else (\<lambda>s'. (s', [Log Debug], None)))"
  shows "f c src payload (u\<lparr>appRunning := b\<rparr>) = with_appRunning b (f c src payload u)"
  unfolding f_def
  by (simp add: handleMediaLoad_appRunning sendMediaStatus_appRunning emit_then_status_appRunning)
     (simp add: with_appRunning_def)

lemma handleMedia_appRunning:
  "handleMedia env c src dst d (s\<lparr>appRunning := b\<rparr>) =
     with_appRunning b (handleMedia env c src dst d s)"
proof (cases "json_parse env d")
  case (Inl e)
  then show ?thesis
    by (simp add: handleMedia_def try_catch_def with_appRunning_def)
next
  case (Inr payload)
  show ?thesis
  proof (cases "js_prop payload ''type''")
    case (Inl e)
    with Inr show ?thesis
      by (simp add: handleMedia_def try_catch_def with_appRunning_def)
  next
    case t: (Inr t)
    show ?thesis
      unfolding handleMedia_def Inr t sum.case
      apply (rule try_catch_appRunning)
       apply (rule and_then_appRunning)
        apply (rule log_line_appRunning)
       apply (rule media_dispatch_appRunning)
      apply (simp add: with_appRunning_def)
      done
  qed
qed

lemma load_timer_appRunning:
  "load_timer c src (s\<lparr>appRunning := b\<rparr>) = with_appRunning b (load_timer c src s)"
  by (simp add: load_timer_def sendMediaStatus_appRunning)

lemma handleMedia_keeps_appRunning:
  "appRunning (fst (handleMedia env c src dst d s)) = appRunning s"
proof -
  have "handleMedia env c src dst d s =
          with_appRunning (appRunning s) (handleMedia env c src dst d s)"
    using handleMedia_appRunning [where s = s and b = "appRunning s" and env = env and d = d] by simp
  then have "fst (handleMedia env c src dst d s) =
               fst (with_appRunning (appRunning s) (handleMedia env c src dst d s))"
    by simp
  also have "appRunning \<dots> = appRunning s"
    by (cases "handleMedia env c src dst d s") (simp add: with_appRunning_def)
  finally show ?thesis .
qed

text \<open>The counter behind the media session id never decreases.\<close>

lemma js_increment_ge: "n \<le> js_increment n"
  by (simp add: js_increment_def)

lemma handleMedia_counter: "mediaRequestId s \<le> mediaRequestId (fst (handleMedia env c src dst d s))"
  by (simp add: handleMedia_def handleMediaLoad_def fst_try_catch_log fst_and_then fst_log_line
        sendMediaStatus_state js_increment_ge Let_def split: sum.splits option.splits)

lemma handleReceiver_counter:
  "mediaRequestId (fst (handleReceiver env c src d s)) = mediaRequestId s"
  by (simp add: handleReceiver_def handleLaunch_def handleStop_def handleSetVolume_def
        fst_try_catch_log fst_and_then fst_log_line sendReceiverStatus_state split: sum.splits)

lemma handleConnection_counter:
  "mediaRequestId (fst (handleConnection env c src d s)) = mediaRequestId s"
  by (simp add: handleConnection_def fst_try_catch_log fst_and_then fst_log_line
        split: sum.splits)

lemma handleHeartbeat_counter:
  "mediaRequestId (fst (handleHeartbeat env c src d s)) = mediaRequestId s"
  by (simp add: handleHeartbeat_def fst_try_catch_log fst_server_send split: sum.splits)

lemma step_counter: "mediaRequestId s \<le> mediaRequestId (fst (step i s))"
proof (cases i)
  case (Message env c src dst ns d)
  then show ?thesis
    by (simp add: onMessage_def handleMedia_counter handleReceiver_counter
          handleConnection_counter handleHeartbeat_counter handleDeviceAuth_state)
next
  case (TimerFired c src)
  then show ?thesis by (simp add: load_timer_def sendMediaStatus_state)
qed (simp_all add: onConnect_def onDisconnect_def start_def stop_def Let_def)

lemma run_counter: "mediaRequestId s \<le> mediaRequestId (run ins s)"
proof (induction ins arbitrary: s)
  case Nil
  show ?case by simp
next
  case (Cons i ins)
  have "mediaRequestId s \<le> mediaRequestId (fst (step i s))" by (rule step_counter)
  also have "\<dots> \<le> mediaRequestId (run ins (fst (step i s)))" by (rule Cons.IH)
  finally show ?case by simp
qed

text \<open>\<^verbatim>\<open>stop\<close> drops the server and leaves the media-status record.\<close>

lemma stop_server_down: "server_up (fst (stop s)) = False"
  by (simp add: stop_def Let_def split: prod.splits)

lemma stop_keeps_media: "mediaStatus (fst (stop s)) = mediaStatus s"
  by (simp add: stop_def Let_def split: prod.splits)

text \<open>The concrete session, evaluated.\<close>

lemma demo_ns:
  "CASTV2_NS_MEDIA \<noteq> CASTV2_NS_CONNECTION" "CASTV2_NS_MEDIA \<noteq> CASTV2_NS_HEARTBEAT"
  "CASTV2_NS_MEDIA \<noteq> CASTV2_NS_DEVICEAUTH" "CASTV2_NS_MEDIA \<noteq> CASTV2_NS_RECEIVER"
  "CASTV2_NS_RECEIVER \<noteq> CASTV2_NS_CONNECTION" "CASTV2_NS_RECEIVER \<noteq> CASTV2_NS_HEARTBEAT"
  "CASTV2_NS_RECEIVER \<noteq> CASTV2_NS_DEVICEAUTH"
  by (simp_all add: CASTV2_NS_CONNECTION_def CASTV2_NS_HEARTBEAT_def CASTV2_NS_DEVICEAUTH_def
        CASTV2_NS_RECEIVER_def CASTV2_NS_MEDIA_def)

lemma demo_stop_parse:
  \<open>json_parse demo_env (Utf8 ''{"type":"STOP","requestId":5}'') =
     Inr (JObj [(''type'', JStr ''STOP''), (''requestId'', JNum 5)])\<close>
  by (simp add: demo_env_def demo_parse_def)

lemma demo_seek_parse:
  \<open>json_parse demo_env (Utf8 ''{"type":"SEEK","requestId":4,"currentTime":30}'') =
     Inr (JObj [(''type'', JStr ''SEEK''), (''requestId'', JNum 4), (''currentTime'', JNum 30)])\<close>
  by (simp add: demo_env_def demo_parse_def)

lemma demo_load_a_parse:
  \<open>json_parse demo_env (Utf8 ''{"type":"LOAD","requestId":2,"media":{"contentId":"http://x/a.mp3"}}'') =
     Inr (JObj [(''type'', JStr ''LOAD''), (''requestId'', JNum 2),
                (''media'', JObj [(''contentId'', JStr ''http://x/a.mp3'')])])\<close>
  by (simp add: demo_env_def demo_parse_def)

lemma demo_load_b_parse:
  \<open>json_parse demo_env
     (Utf8 ''{"type":"LOAD","requestId":6,"autoplay":null,"media":{"contentId":"http://x/b.mp3"}}'') =
   Inr (JObj [(''type'', JStr ''LOAD''), (''requestId'', JNum 6), (''autoplay'', JNull),
              (''media'', JObj [(''contentId'', JStr ''http://x/b.mp3'')])])\<close>
  by (simp add: demo_env_def demo_parse_def)

lemma demo_load_none_parse:
  \<open>json_parse demo_env (Utf8 ''{"type":"LOAD","requestId":8,"media":{"contentType":"audio/mpeg"}}'') =
     Inr (JObj [(''type'', JStr ''LOAD''), (''requestId'', JNum 8),
                (''media'', JObj [(''contentType'', JStr ''audio/mpeg'')])])\<close>
  by (simp add: demo_env_def demo_parse_def)

lemma demo_launch_state:
  \<open>fst (handleReceiver demo_env c src
          (Utf8 ''{"type":"LAUNCH","appId":"CC1AD845","requestId":1}'') s) =
     s\<lparr>appRunning := True, sessionId := ''6f1c2d3e-0000-4000-8000-000000000002'',
       mediaStatus := None\<rparr>\<close>
  by (simp add: handleReceiver_def fst_try_catch_log fst_and_then log_line_ok demo_env_def
        demo_parse_def handleLaunch_def sendReceiverStatus_state)

lemma demo_loaded_eq:
  "demo_loaded = demo_device\<lparr>appRunning := True,
      sessionId := ''6f1c2d3e-0000-4000-8000-000000000002'',
      mediaRequestId := 1,
      mediaStatus := Some \<lparr>mediaSessionId = 1, playerState = BUFFERING,
         media = \<lparr>contentId = JStr ''http://x/a.mp3'', contentType = JStr '''',
                  streamType = JStr ''BUFFERED'', metadata = JObj []\<rparr>,
         currentTime = JNum 0, supportedMediaCommands = 274447,
         volume = \<lparr>level = 1, muted = False\<rparr>\<rparr>\<rparr>"
  by (simp add: demo_loaded_def demo_device_def start_def new_device_def onMessage_def
        CASTV2_NS_CONNECTION_def CASTV2_NS_HEARTBEAT_def CASTV2_NS_DEVICEAUTH_def
        CASTV2_NS_RECEIVER_def CASTV2_NS_MEDIA_def handleReceiver_def handleMedia_def
        fst_try_catch_log fst_and_then log_line_ok demo_env_def demo_parse_def handleLaunch_def
        handleMediaLoad_def new_media_status_def sendReceiverStatus_state sendMediaStatus_state
        or_else_def js_increment_def Let_def)

lemma demo_paused_eq:
  "demo_paused = demo_loaded\<lparr>mediaStatus :=
      map_option (\<lambda>ms. ms\<lparr>playerState := PAUSED\<rparr>) (mediaStatus demo_loaded)\<rparr>"
proof -
  have p: \<open>json_parse demo_env (Utf8 ''{"type":"PAUSE","requestId":3}'') =
             Inr (JObj [(''type'', JStr ''PAUSE''), (''requestId'', JNum 3)])\<close>
    by (simp add: demo_env_def demo_parse_def)
  have t: "js_prop (JObj [(''type'', JStr ''PAUSE''), (''requestId'', JNum 3)]) ''type'' =
             Inr (JStr ''PAUSE'')"
    by simp
  show ?thesis
    by (simp add: demo_paused_def onMessage_def CASTV2_NS_CONNECTION_def CASTV2_NS_HEARTBEAT_def
          CASTV2_NS_DEVICEAUTH_def CASTV2_NS_RECEIVER_def CASTV2_NS_MEDIA_def
          media_state_change(2) [OF p t])
qed

lemma demo_launched_eq:
  "demo_launched = demo_device\<lparr>appRunning := True,
      sessionId := ''6f1c2d3e-0000-4000-8000-000000000002''\<rparr>"
  by (simp add: demo_launched_def onMessage_def demo_ns demo_launch_state demo_device_def
        start_def new_device_def)

lemma demo_loaded_launched:
  "demo_loaded = demo_launched\<lparr>mediaRequestId := 1,
      mediaStatus := Some \<lparr>mediaSessionId = 1, playerState = BUFFERING,
         media = \<lparr>contentId = JStr ''http://x/a.mp3'', contentType = JStr '''',
                  streamType = JStr ''BUFFERED'', metadata = JObj []\<rparr>,
         currentTime = JNum 0, supportedMediaCommands = 274447,
         volume = \<lparr>level = 1, muted = False\<rparr>\<rparr>\<rparr>"
  by (simp add: demo_loaded_eq demo_launched_eq)

lemma demo_load_c_parse:
  \<open>json_parse demo_env
     (Utf8 ''{"type":"LOAD","requestId":9,"media":{"contentId":"http://x/c.mp3","contentType":{"toString":1}}}'') =
   Inr (JObj [(''type'', JStr ''LOAD''), (''requestId'', JNum 9),
              (''media'', JObj [(''contentId'', JStr ''http://x/c.mp3''),
                                (''contentType'', JObj [(''toString'', JNum 1)])])])\<close>
  by (simp add: demo_env_def demo_parse_def)

lemma demo_pause_parse:
  \<open>json_parse demo_env (Utf8 ''{"type":"PAUSE","requestId":3}'') =
     Inr (JObj [(''type'', JStr ''PAUSE''), (''requestId'', JNum 3)])\<close>
  by (simp add: demo_env_def demo_parse_def)

lemma demo_up: "server_up demo_device" "server_up demo_launched" "server_up demo_loaded"
  by (simp_all add: demo_loaded_eq demo_launched_eq demo_device_def start_def new_device_def)

lemma demo_receiver_stop:
  \<open>handleReceiver demo_env ''client-1'' ''sender-0'' (Utf8 ''{"type":"STOP","requestId":5}'')
      demo_loaded =
    (demo_loaded\<lparr>appRunning := False, mediaStatus := None\<rparr>,
     [Log Debug, Log Info, Emit (StopEv ''192.168.1.20''),
      Send ''client-1'' ''receiver-0'' ''sender-0'' CASTV2_NS_RECEIVER (ReceiverStatus (JNum 5) [])],
     None)\<close>
  using demo_up(3)
  by (simp add: handleReceiver_def try_catch_def and_then_def log_line_ok demo_stop_parse
        handleStop_def sendReceiverStatus_def server_send_def or_else_def)
     (simp add: demo_loaded_eq demo_device_def start_def new_device_def)

text \<open>The event loop: a message on the media or receiver namespace, and a single timer.\<close>

lemma deliver_media:
  "deliver env c src dst CASTV2_NS_MEDIA d w =
     (case handleMedia env c src dst d (receiver w) of
        (s, acts, e) \<Rightarrow> (\<lparr>receiver = s, timers = timers w @ set_timers acts\<rparr>, acts, e))"
  by (simp add: deliver_def onMessage_def demo_ns)

lemma deliver_receiver:
  "deliver env c src dst CASTV2_NS_RECEIVER d w =
     (case handleReceiver env c src d (receiver w) of
        (s, acts, e) \<Rightarrow> (\<lparr>receiver = s, timers = timers w @ set_timers acts\<rparr>, acts, e))"
  by (simp add: deliver_def onMessage_def demo_ns)

lemma elapse_one:
  "elapse dt \<lparr>receiver = t, timers = [(k, c, src)]\<rparr> =
     (if k \<le> dt then
        (case load_timer c src t of (s, acts, e) \<Rightarrow> (\<lparr>receiver = s, timers = []\<rparr>, acts, e))
      else (\<lparr>receiver = t, timers = [(k - dt, c, src)]\<rparr>, [], None))"
  by (cases "load_timer c src t") (simp add: elapse_def and_then_def split: option.splits)

section \<open>The claims\<close>

text \<open>
  C2 (device authentication always answers). While the receiver's server is up, the handler
  of a device-authentication message never raises and makes exactly one call of
  \<open>_server.send\<close>: to the client the challenge came from, from \<open>receiver-0\<close> to the
  challenge's sender, on the device-authentication namespace. The payload is the response
  buffer when \<open>castAuth.handleAuthChallenge\<close> returns one (a signature is available), and
  the error sub-message with \<open>errorType\<close> 0 (\<open>INTERNAL_ERROR\<close>) in every other case: the
  message does not decode, the helper raises (its encoding included), or the helper has no
  signature. The receiver's state is unchanged. Encoding the constant error sub-message is
  taken to succeed.
\<close>

theorem deviceAuth_always_answers:
  assumes "server_up s"
  shows "\<exists>acts. handleDeviceAuth env c src d s = (s, acts, None)
          \<and> sends acts =
              [Send c ''receiver-0'' src CASTV2_NS_DEVICEAUTH
                 (case auth_decode env d of
                    Inl e \<Rightarrow> AuthError 0
                  | Inr challenge \<Rightarrow>
                      (case handleAuthChallenge env challenge of
                         Inr (Some buf) \<Rightarrow> AuthResponse buf
                       | _ \<Rightarrow> AuthError 0))]"
proof (cases "auth_decode env d")
  case (Inl e)
  with deviceAuth_outcome [OF assms, of env c src d] show ?thesis by simp
next
  case decoded: (Inr challenge)
  show ?thesis
  proof (cases "handleAuthChallenge env challenge")
    case (Inl e)
    with decoded deviceAuth_outcome [OF assms, of env c src d] show ?thesis by simp
  next
    case helper: (Inr r)
    show ?thesis
    proof (cases r)
      case None
      with decoded helper deviceAuth_outcome [OF assms, of env c src d] show ?thesis by simp
    next
      case (Some buf)
      with decoded helper deviceAuth_outcome [OF assms, of env c src d] show ?thesis by simp
    qed
  qed
qed

theorem deviceAuth_always_answers_witness:
  "server_up demo_device
   \<and> sends (fst (snd (handleDeviceAuth demo_signed_env ''client-1'' ''sender-0'' (Binary [0x0a, 0x00])
        demo_device))) =
       [Send ''client-1'' ''receiver-0'' ''sender-0'' CASTV2_NS_DEVICEAUTH
          (AuthResponse [0x12, 0x03, 0x0a, 0x01, 0x2a])]
   \<and> sends (fst (snd (handleDeviceAuth demo_env ''client-1'' ''sender-0'' (Binary [0x0a, 0x00])
        demo_device))) =
       [Send ''client-1'' ''receiver-0'' ''sender-0'' CASTV2_NS_DEVICEAUTH (AuthError 0)]
   \<and> sends (fst (snd (handleDeviceAuth demo_signed_env ''client-1'' ''sender-0'' (Utf8 ''junk'')
        demo_device))) =
       [Send ''client-1'' ''receiver-0'' ''sender-0'' CASTV2_NS_DEVICEAUTH (AuthError 0)]
   \<and> snd (snd (handleDeviceAuth demo_env ''client-1'' ''sender-0'' (Utf8 ''junk'') demo_device)) = None"
proof -
  have up: "server_up demo_device"
    by (simp add: demo_device_def start_def new_device_def)
  from deviceAuth_always_answers [OF up, of demo_signed_env "''client-1''" "''sender-0''" "Binary [0x0a, 0x00]"]
       deviceAuth_always_answers [OF up, of demo_env "''client-1''" "''sender-0''" "Binary [0x0a, 0x00]"]
       deviceAuth_always_answers [OF up, of demo_signed_env "''client-1''" "''sender-0''" "Utf8 ''junk''"]
       deviceAuth_always_answers [OF up, of demo_env "''client-1''" "''sender-0''" "Utf8 ''junk''"]
       up
  show ?thesis
    by (auto simp: demo_signed_env_def demo_env_def)
qed

text \<open>
  C3 as amended (\<open>STOP\<close> by namespace). A \<open>STOP\<close> on the receiver namespace leaves, from every
  state, the application flag false and no media-status record. A \<open>STOP\<close> on the media
  namespace leaves the application flag as it was and keeps the record, if there is one,
  with its player state set to \<open>IDLE\<close>.
\<close>

theorem stop_by_namespace:
  assumes "json_parse env d = Inr payload" and "js_prop payload ''type'' = Inr (JStr ''STOP'')"
  shows "appRunning (fst (handleReceiver env c src d s)) = False
       \<and> mediaStatus (fst (handleReceiver env c src d s)) = None
       \<and> appRunning (fst (handleMedia env c src dst d s)) = appRunning s
       \<and> mediaStatus (fst (handleMedia env c src dst d s)) =
           map_option (\<lambda>ms. ms\<lparr>playerState := IDLE\<rparr>) (mediaStatus s)"
proof -
  have receiver: "fst (handleReceiver env c src d s) = s\<lparr>appRunning := False, mediaStatus := None\<rparr>"
    using assms by (rule receiver_stop_state)
  have media: "fst (handleMedia env c src dst d s) =
                 s\<lparr>mediaStatus := map_option (\<lambda>ms. ms\<lparr>playerState := IDLE\<rparr>) (mediaStatus s)\<rparr>"
    using assms by (rule media_state_change(3))
  show ?thesis
    unfolding receiver media by simp
qed

theorem stop_by_namespace_witness:
  \<open>json_parse demo_env (Utf8 ''{"type":"STOP","requestId":5}'') =
     Inr (JObj [(''type'', JStr ''STOP''), (''requestId'', JNum 5)])
   \<and> js_prop (JObj [(''type'', JStr ''STOP''), (''requestId'', JNum 5)]) ''type'' = Inr (JStr ''STOP'')
   \<and> appRunning demo_loaded
   \<and> appRunning (fst (handleReceiver demo_env ''client-1'' ''sender-0''
         (Utf8 ''{"type":"STOP","requestId":5}'') demo_loaded)) = False
   \<and> mediaStatus (fst (handleReceiver demo_env ''client-1'' ''sender-0''
         (Utf8 ''{"type":"STOP","requestId":5}'') demo_loaded)) = None
   \<and> map_option playerState (mediaStatus (fst (handleMedia demo_env ''client-1'' ''sender-0''
         ''transport-0f1e2d3c'' (Utf8 ''{"type":"STOP","requestId":5}'') demo_loaded))) = Some IDLE\<close>
proof -
  have t: "js_prop (JObj [(''type'', JStr ''STOP''), (''requestId'', JNum 5)]) ''type'' =
             Inr (JStr ''STOP'')"
    by simp
  from stop_by_namespace [OF demo_stop_parse t, of "''client-1''" "''sender-0''" demo_loaded
         "''transport-0f1e2d3c''"] demo_stop_parse t
  show ?thesis by (simp add: demo_loaded_eq)
qed

text \<open>
  C3 as stated fails for the media namespace: on a receiver with a running application
  and a loaded record, a media \<open>STOP\<close> leaves the application running and the record in
  place.
\<close>

theorem stop_media_counterexample:
  \<open>appRunning demo_loaded
   \<and> appRunning (fst (handleMedia demo_env ''client-1'' ''sender-0'' ''transport-0f1e2d3c''
        (Utf8 ''{"type":"STOP","requestId":5}'') demo_loaded))
   \<and> mediaStatus (fst (handleMedia demo_env ''client-1'' ''sender-0'' ''transport-0f1e2d3c''
        (Utf8 ''{"type":"STOP","requestId":5}'') demo_loaded)) \<noteq> None\<close>
proof -
  have t: "js_prop (JObj [(''type'', JStr ''STOP''), (''requestId'', JNum 5)]) ''type'' =
             Inr (JStr ''STOP'')"
    by simp
  show ?thesis
    by (simp add: media_state_change(3) [OF demo_stop_parse t] demo_loaded_eq)
qed

text \<open>
  C4 as amended (\<open>SEEK\<close>). A media-namespace \<open>SEEK\<close> emits one seek event carrying the
  payload's \<open>currentTime\<close> and sets the player state of an existing record to \<open>PLAYING\<close>;
  nothing else of the state changes, so the player state is preserved exactly when it was
  \<open>PLAYING\<close> already.
\<close>

theorem seek_sets_playing:
  assumes "json_parse env d = Inr payload" and "js_prop payload ''type'' = Inr (JStr ''SEEK'')"
  shows "emitted (fst (snd (handleMedia env c src dst d s))) =
           [SeekEv (speakerIp s) (get payload ''currentTime'')]
       \<and> fst (handleMedia env c src dst d s) =
           s\<lparr>mediaStatus := map_option (\<lambda>ms. ms\<lparr>playerState := PLAYING\<rparr>) (mediaStatus s)\<rparr>"
proof
  show "emitted (fst (snd (handleMedia env c src dst d s))) =
          [SeekEv (speakerIp s) (get payload ''currentTime'')]"
    using assms by (rule media_seek_actions)
next
  show "fst (handleMedia env c src dst d s) =
          s\<lparr>mediaStatus := map_option (\<lambda>ms. ms\<lparr>playerState := PLAYING\<rparr>) (mediaStatus s)\<rparr>"
    using assms by (rule media_state_change(4))
qed

theorem seek_sets_playing_witness:
  \<open>json_parse demo_env (Utf8 ''{"type":"SEEK","requestId":4,"currentTime":30}'') =
     Inr (JObj [(''type'', JStr ''SEEK''), (''requestId'', JNum 4), (''currentTime'', JNum 30)])
   \<and> js_prop (JObj [(''type'', JStr ''SEEK''), (''requestId'', JNum 4), (''currentTime'', JNum 30)])
         ''type'' = Inr (JStr ''SEEK'')
   \<and> emitted (fst (snd (handleMedia demo_env ''client-1'' ''sender-0'' ''transport-0f1e2d3c''
         (Utf8 ''{"type":"SEEK","requestId":4,"currentTime":30}'') demo_loaded))) =
       [SeekEv ''192.168.1.20'' (JNum 30)]
   \<and> map_option playerState (mediaStatus (fst (handleMedia demo_env ''client-1'' ''sender-0''
         ''transport-0f1e2d3c'' (Utf8 ''{"type":"SEEK","requestId":4,"currentTime":30}'')
         demo_loaded))) = Some PLAYING\<close>
proof -
  have t: "js_prop (JObj [(''type'', JStr ''SEEK''), (''requestId'', JNum 4), (''currentTime'', JNum 30)])
         ''type'' = Inr (JStr ''SEEK'')"
    by simp
  from seek_sets_playing [OF demo_seek_parse t, of "''client-1''" "''sender-0''"
         "''transport-0f1e2d3c''" demo_loaded] demo_seek_parse t
  show ?thesis by (simp add: demo_loaded_eq demo_device_def start_def new_device_def)
qed

text \<open>C4 as stated fails on a paused record: after \<open>SEEK\<close> it is \<open>PLAYING\<close>.\<close>

theorem seek_paused_counterexample:
  \<open>map_option playerState (mediaStatus demo_paused) = Some PAUSED
   \<and> map_option playerState (mediaStatus (fst (handleMedia demo_env ''client-1'' ''sender-0''
         ''transport-0f1e2d3c'' (Utf8 ''{"type":"SEEK","requestId":4,"currentTime":30}'')
         demo_paused))) = Some PLAYING\<close>
proof -
  have t: "js_prop (JObj [(''type'', JStr ''SEEK''), (''requestId'', JNum 4), (''currentTime'', JNum 30)])
         ''type'' = Inr (JStr ''SEEK'')"
    by simp
  show ?thesis
    by (simp add: media_state_change(4) [OF demo_seek_parse t] demo_paused_eq demo_loaded_eq)
qed

text \<open>
  C5 (monotonic media session id). Take a \<open>LOAD\<close> that passes the content-id check, any
  sequence of later inputs to the same receiver (messages on any namespace, among them
  launches, stops and further loads, connections, timers, a stop and start of the device),
  and a second such \<open>LOAD\<close> after them. While the counter is below \<open>2^53\<close>, where a
  JavaScript number still counts, the media session id the second \<open>LOAD\<close> assigns is
  strictly greater than the one the first assigned.
\<close>

theorem mediaSessionId_strictly_increases:
  assumes "is_load env1 d1" and "is_load env2 d2"
      and "s1 = fst (handleMedia env1 c1 src1 dst1 d1 s0)"
      and "s2 = run ins s1"
      and "s3 = fst (handleMedia env2 c2 src2 dst2 d2 s2)"
      and "mediaRequestId s2 < 2 ^ 53"
  shows "\<exists>m1 m3. mediaStatus s1 = Some m1 \<and> mediaStatus s3 = Some m3
            \<and> mediaSessionId m1 < mediaSessionId m3"
proof -
  from is_load_state [OF assms(1), of c1 src1 dst1 s0] assms(3) obtain p1 where
    s1: "s1 = s0\<lparr>mediaRequestId := js_increment (mediaRequestId s0),
                 mediaStatus := Some (new_media_status (js_increment (mediaRequestId s0)) p1)\<rparr>"
    by auto
  from is_load_state [OF assms(2), of c2 src2 dst2 s2] assms(5) obtain p3 where
    s3: "s3 = s2\<lparr>mediaRequestId := js_increment (mediaRequestId s2),
                 mediaStatus := Some (new_media_status (js_increment (mediaRequestId s2)) p3)\<rparr>"
    by auto
  have "mediaRequestId s1 \<le> mediaRequestId s2"
    unfolding assms(4) by (rule run_counter)
  moreover have "mediaRequestId s2 < js_increment (mediaRequestId s2)"
    using assms(6) by (simp add: js_increment_def)
  ultimately have "js_increment (mediaRequestId s0) < js_increment (mediaRequestId s2)"
    by (simp add: s1)
  then show ?thesis
    by (simp add: s1 s3 new_media_status_def Let_def)
qed

theorem mediaSessionId_strictly_increases_witness:
  \<open>is_load demo_env
     (Utf8 ''{"type":"LOAD","requestId":6,"autoplay":null,"media":{"contentId":"http://x/b.mp3"}}'')
   \<and> is_load demo_env (Utf8 ''{"type":"LOAD","requestId":2,"media":{"contentId":"http://x/a.mp3"}}'')
   \<and> mediaRequestId
        (run [Message demo_env ''client-1'' ''sender-0'' ''receiver-0'' CASTV2_NS_RECEIVER
                (Utf8 ''{"type":"STOP","requestId":5}''),
              Message demo_env ''client-2'' ''sender-1'' ''receiver-0'' CASTV2_NS_RECEIVER
                (Utf8 ''{"type":"LAUNCH","appId":"CC1AD845","requestId":1}'')]
           (fst (handleMedia demo_env ''client-1'' ''sender-0'' ''transport-0f1e2d3c''
              (Utf8 ''{"type":"LOAD","requestId":6,"autoplay":null,"media":{"contentId":"http://x/b.mp3"}}'')
              demo_loaded))) = 2
   \<and> (\<exists>m1 m3.
        mediaStatus (fst (handleMedia demo_env ''client-1'' ''sender-0'' ''transport-0f1e2d3c''
          (Utf8 ''{"type":"LOAD","requestId":6,"autoplay":null,"media":{"contentId":"http://x/b.mp3"}}'')
          demo_loaded)) = Some m1
      \<and> mediaStatus (fst (handleMedia demo_env ''client-2'' ''sender-1'' ''transport-0f1e2d3c''
          (Utf8 ''{"type":"LOAD","requestId":2,"media":{"contentId":"http://x/a.mp3"}}'')
          (run [Message demo_env ''client-1'' ''sender-0'' ''receiver-0'' CASTV2_NS_RECEIVER
                  (Utf8 ''{"type":"STOP","requestId":5}''),
                Message demo_env ''client-2'' ''sender-1'' ''receiver-0'' CASTV2_NS_RECEIVER
                  (Utf8 ''{"type":"LAUNCH","appId":"CC1AD845","requestId":1}'')]
             (fst (handleMedia demo_env ''client-1'' ''sender-0'' ''transport-0f1e2d3c''
                (Utf8 ''{"type":"LOAD","requestId":6,"autoplay":null,"media":{"contentId":"http://x/b.mp3"}}'')
                demo_loaded))))) = Some m3
      \<and> mediaSessionId m1 < mediaSessionId m3)\<close>
proof -
  have l1: \<open>is_load demo_env
     (Utf8 ''{"type":"LOAD","requestId":6,"autoplay":null,"media":{"contentId":"http://x/b.mp3"}}'')\<close>
    by (simp add: is_load_def demo_load_b_parse has_contentId_def or_else_def)
  have l2: \<open>is_load demo_env (Utf8 ''{"type":"LOAD","requestId":2,"media":{"contentId":"http://x/a.mp3"}}'')\<close>
    by (simp add: is_load_def demo_load_a_parse has_contentId_def or_else_def)
  have t: "js_prop (JObj [(''type'', JStr ''STOP''), (''requestId'', JNum 5)]) ''type'' =
             Inr (JStr ''STOP'')"
    by simp
  have n: \<open>mediaRequestId
        (run [Message demo_env ''client-1'' ''sender-0'' ''receiver-0'' CASTV2_NS_RECEIVER
                (Utf8 ''{"type":"STOP","requestId":5}''),
              Message demo_env ''client-2'' ''sender-1'' ''receiver-0'' CASTV2_NS_RECEIVER
                (Utf8 ''{"type":"LAUNCH","appId":"CC1AD845","requestId":1}'')]
           (fst (handleMedia demo_env ''client-1'' ''sender-0'' ''transport-0f1e2d3c''
              (Utf8 ''{"type":"LOAD","requestId":6,"autoplay":null,"media":{"contentId":"http://x/b.mp3"}}'')
              demo_loaded))) = 2\<close>
    by (simp add: onMessage_def demo_ns media_load_outcome [OF demo_load_b_parse]
          has_contentId_def or_else_def Let_def receiver_stop_state [OF demo_stop_parse t]
          demo_launch_state demo_loaded_eq js_increment_def)
  then have b: \<open>mediaRequestId
        (run [Message demo_env ''client-1'' ''sender-0'' ''receiver-0'' CASTV2_NS_RECEIVER
                (Utf8 ''{"type":"STOP","requestId":5}''),
              Message demo_env ''client-2'' ''sender-1'' ''receiver-0'' CASTV2_NS_RECEIVER
                (Utf8 ''{"type":"LAUNCH","appId":"CC1AD845","requestId":1}'')]
           (fst (handleMedia demo_env ''client-1'' ''sender-0'' ''transport-0f1e2d3c''
              (Utf8 ''{"type":"LOAD","requestId":6,"autoplay":null,"media":{"contentId":"http://x/b.mp3"}}'')
              demo_loaded))) < 2 ^ 53\<close>
    by simp
  from mediaSessionId_strictly_increases [OF l1 l2 refl refl refl b] l1 l2 n
  show ?thesis by blast
qed

text \<open>
  C6 (\<open>LOAD\<close>). The claim as stated fails in two places: a \<open>LOAD\<close> whose payload has a
  content id is dropped all the same when the content id or the content type cannot be
  turned into a string for the handler's log line, and the timer finds no record to set to
  \<open>PLAYING\<close> when a receiver-namespace \<open>STOP\<close> or \<open>LAUNCH\<close> has cleared it in the meantime.
  What holds, for every media-namespace \<open>LOAD\<close>: if \<open>media\<close> or \<open>media.contentId\<close> is absent,
  \<open>null\<close>, empty or otherwise falsy, or the content id or type cannot be turned into a
  string, the message is logged and dropped: no reply, no event, no timer, the state
  unchanged. Otherwise, on a receiver whose server is up, the session counter is incremented
  and a new media-status record in state \<open>BUFFERING\<close> replaces the old one (the new counter as
  its session id, the payload's content id, its content type or the empty string, its stream
  type or \<open>BUFFERED\<close>, its metadata or an empty object, its \<open>currentTime\<close> or 0); the load
  event is emitted with the speaker's address, the same content id, content type, stream type
  and metadata, the autoplay flag (true unless the payload's \<open>autoplay\<close> is the boolean
  \<open>false\<close>) and the start time; the record is sent at once as the reply to the request; and a
  timer of 500 ms is set for the client and sender. With nothing else happening, at 500 ms
  the record becomes \<open>PLAYING\<close> and is sent again with request id 0. In general: no message
  takes a pending timer off the list; a timer does not run before its time is up; and when
  it runs on a receiver whose server is up, whatever has happened in the meantime, a record
  that is present then, in any player state, becomes \<open>PLAYING\<close> and is pushed with request
  id 0, while with no record present the push carries an empty status list and the state is
  unchanged.
\<close>

theorem load_behaviour:
  assumes "json_parse env d = Inr payload" and "js_prop payload ''type'' = Inr (JStr ''LOAD'')"
  shows
    "let m = get payload ''media'';
         n = js_increment (mediaRequestId s);
         ms = \<lparr>mediaSessionId = n, playerState = BUFFERING,
               media = \<lparr>contentId = get m ''contentId'',
                        contentType = or_else (get m ''contentType'') (JStr ''''),
                        streamType = or_else (get m ''streamType'') (JStr ''BUFFERED''),
                        metadata = or_else (get m ''metadata'') (JObj [])\<rparr>,
               currentTime = or_else (get payload ''currentTime'') (JNum 0),
               supportedMediaCommands = 274447,
               volume = \<lparr>level = 1, muted = False\<rparr>\<rparr>;
         ev = \<lparr>load_speakerIp = speakerIp s,
               load_contentId = get m ''contentId'',
               load_contentType = or_else (get m ''contentType'') (JStr ''''),
               load_streamType = or_else (get m ''streamType'') (JStr ''BUFFERED''),
               load_metadata = or_else (get m ''metadata'') (JObj []),
               autoplay = (get payload ''autoplay'' \<noteq> JBool False),
               load_currentTime = or_else (get payload ''currentTime'') (JNum 0)\<rparr>;
         s1 = s\<lparr>mediaRequestId := n, mediaStatus := Some ms\<rparr>;
         acts = [Log Debug, Log Info, Emit (LoadEv ev),
                 Send c (transportId s) src CASTV2_NS_MEDIA
                   (MediaStatus (or_else (get payload ''requestId'') (JNum 0)) [ms]),
                 SetTimeout 500 c src]
     in (\<not> truthy m \<or> \<not> truthy (get m ''contentId'') \<or> \<not> printable (get m ''contentId'')
           \<or> \<not> printable (or_else (get m ''contentType'') (JStr ''unknown'')) \<longrightarrow>
           handleMedia env c src dst d s = (s, [Log Debug, Log Warning], None)
         \<and> deliver env c src dst CASTV2_NS_MEDIA d \<lparr>receiver = s, timers = ts\<rparr> =
             (\<lparr>receiver = s, timers = ts\<rparr>, [Log Debug, Log Warning], None))
      \<and> (truthy m \<and> truthy (get m ''contentId'') \<and> printable (get m ''contentId'')
           \<and> printable (or_else (get m ''contentType'') (JStr ''unknown'')) \<and> server_up s \<longrightarrow>
           handleMedia env c src dst d s = (s1, acts, None)
         \<and> deliver env c src dst CASTV2_NS_MEDIA d \<lparr>receiver = s, timers = ts\<rparr> =
             (\<lparr>receiver = s1, timers = ts @ [(500, c, src)]\<rparr>, acts, None)
         \<and> elapse 500 \<lparr>receiver = s1, timers = [(500, c, src)]\<rparr> =
             (\<lparr>receiver = s1\<lparr>mediaStatus := Some (ms\<lparr>playerState := PLAYING\<rparr>)\<rparr>, timers = []\<rparr>,
              [Send c (transportId s) src CASTV2_NS_MEDIA
                 (MediaStatus (JNum 0) [ms\<lparr>playerState := PLAYING\<rparr>])], None))
      \<and> (\<forall>env' c' src' dst' ns' d' w.
            \<exists>new. timers (fst (deliver env' c' src' dst' ns' d' w)) = timers w @ new)
      \<and> (\<forall>t k dt. dt < k \<longrightarrow>
           elapse dt \<lparr>receiver = t, timers = [(k, c, src)]\<rparr> =
             (\<lparr>receiver = t, timers = [(k - dt, c, src)]\<rparr>, [], None))
      \<and> (\<forall>t k dt. server_up t \<and> k \<le> dt \<longrightarrow>
           elapse dt \<lparr>receiver = t, timers = [(k, c, src)]\<rparr> =
             (\<lparr>receiver = t\<lparr>mediaStatus :=
                   map_option (\<lambda>mt. mt\<lparr>playerState := PLAYING\<rparr>) (mediaStatus t)\<rparr>,
               timers = []\<rparr>,
              [Send c (transportId t) src CASTV2_NS_MEDIA
                 (MediaStatus (JNum 0)
                    (case mediaStatus t of None \<Rightarrow> [] | Some mt \<Rightarrow> [mt\<lparr>playerState := PLAYING\<rparr>]))],
              None))"
proof -
  let ?m = "get payload ''media''"
  let ?lacks = "\<not> truthy ?m \<or> \<not> truthy (get ?m ''contentId'') \<or> \<not> printable (get ?m ''contentId'')
        \<or> \<not> printable (or_else (get ?m ''contentType'') (JStr ''unknown''))"
  let ?has = "truthy ?m \<and> truthy (get ?m ''contentId'') \<and> printable (get ?m ''contentId'')
        \<and> printable (or_else (get ?m ''contentType'') (JStr ''unknown'')) \<and> server_up s"
  have dropped: "handleMedia env c src dst d s = (s, [Log Debug, Log Warning], None)" if ?lacks
  proof -
    from that have "\<not> has_contentId payload"
      by (auto simp: has_contentId_def)
    then show ?thesis
      by (rule media_load_dropped [OF assms])
  qed
  have carried: "handleMedia env c src dst d s =
      (s\<lparr>mediaRequestId := js_increment (mediaRequestId s),
         mediaStatus := Some (new_media_status (js_increment (mediaRequestId s)) payload)\<rparr>,
       [Log Debug, Log Info, Emit (LoadEv (load_event_of (speakerIp s) payload)),
        Send c (transportId s) src CASTV2_NS_MEDIA
          (MediaStatus (or_else (get payload ''requestId'') (JNum 0))
             [new_media_status (js_increment (mediaRequestId s)) payload]),
        SetTimeout 500 c src], None)" if ?has
  proof -
    from that have h: "has_contentId payload" and up: "server_up s"
      by (simp_all add: has_contentId_def)
    from up show ?thesis
      by (simp add: media_load_outcome [OF assms h] Let_def)
  qed
  have timer: "elapse dt \<lparr>receiver = t, timers = [(k, c, src)]\<rparr> =
      (\<lparr>receiver = t\<lparr>mediaStatus :=
            map_option (\<lambda>mt. mt\<lparr>playerState := PLAYING\<rparr>) (mediaStatus t)\<rparr>,
        timers = []\<rparr>,
       [Send c (transportId t) src CASTV2_NS_MEDIA
          (MediaStatus (JNum 0)
             (case mediaStatus t of None \<Rightarrow> [] | Some mt \<Rightarrow> [mt\<lparr>playerState := PLAYING\<rparr>]))],
       None)"
    if "server_up t" and "k \<le> dt" for t :: cast_device and k dt :: nat
    using that
    by (cases "mediaStatus t") (simp_all add: elapse_one load_timer_outcome Let_def)
  show ?thesis
    unfolding Let_def
  proof (intro conjI impI allI, goal_cases)
    case 1
    then show ?case
      by (rule dropped)
  next
    case 2
    then show ?case
      by (simp add: deliver_media dropped)
  next
    case 3
    then show ?case
      by (simp add: carried new_media_status_def load_event_of_def Let_def)
  next
    case 4
    then show ?case
      by (simp add: deliver_media carried new_media_status_def load_event_of_def Let_def)
  next
    case 5
    then show ?case
      by (simp add: timer)
  next
    case (6 env' c' src' dst' ns' d' w)
    show ?case
      by (cases "onMessage env' c' src' dst' ns' d' (receiver w)") (simp add: deliver_def)
  next
    case (7 t k dt)
    then show ?case
      by (simp add: elapse_one)
  next
    case (8 t k dt)
    then show ?case
      by (simp add: timer)
  qed
qed

theorem load_behaviour_witness:
  \<open>json_parse demo_env (Utf8 ''{"type":"LOAD","requestId":2,"media":{"contentId":"http://x/a.mp3"}}'') =
     Inr (JObj [(''type'', JStr ''LOAD''), (''requestId'', JNum 2),
                (''media'', JObj [(''contentId'', JStr ''http://x/a.mp3'')])])
   \<and> server_up demo_launched
   \<and> deliver demo_env ''client-1'' ''sender-0'' ''transport-0f1e2d3c'' CASTV2_NS_MEDIA
        (Utf8 ''{"type":"LOAD","requestId":2,"media":{"contentId":"http://x/a.mp3"}}'')
        \<lparr>receiver = demo_launched, timers = []\<rparr> =
       (\<lparr>receiver = demo_loaded, timers = [(500, ''client-1'', ''sender-0'')]\<rparr>,
        [Log Debug, Log Info,
         Emit (LoadEv \<lparr>load_speakerIp = ''192.168.1.20'', load_contentId = JStr ''http://x/a.mp3'',
                       load_contentType = JStr '''', load_streamType = JStr ''BUFFERED'',
                       load_metadata = JObj [], autoplay = True, load_currentTime = JNum 0\<rparr>),
         Send ''client-1'' ''transport-0f1e2d3c'' ''sender-0'' CASTV2_NS_MEDIA
           (MediaStatus (JNum 2)
              [\<lparr>mediaSessionId = 1, playerState = BUFFERING,
                media = \<lparr>contentId = JStr ''http://x/a.mp3'', contentType = JStr '''',
                         streamType = JStr ''BUFFERED'', metadata = JObj []\<rparr>,
                currentTime = JNum 0, supportedMediaCommands = 274447,
                volume = \<lparr>level = 1, muted = False\<rparr>\<rparr>]),
         SetTimeout 500 ''client-1'' ''sender-0''],
        None)
   \<and> elapse 499 \<lparr>receiver = demo_loaded, timers = [(500, ''client-1'', ''sender-0'')]\<rparr> =
       (\<lparr>receiver = demo_loaded, timers = [(1, ''client-1'', ''sender-0'')]\<rparr>, [], None)
   \<and> elapse 500 \<lparr>receiver = demo_loaded, timers = [(500, ''client-1'', ''sender-0'')]\<rparr> =
       (\<lparr>receiver = demo_loaded\<lparr>mediaStatus := Some
            \<lparr>mediaSessionId = 1, playerState = PLAYING,
             media = \<lparr>contentId = JStr ''http://x/a.mp3'', contentType = JStr '''',
                      streamType = JStr ''BUFFERED'', metadata = JObj []\<rparr>,
             currentTime = JNum 0, supportedMediaCommands = 274447,
             volume = \<lparr>level = 1, muted = False\<rparr>\<rparr>\<rparr>,
         timers = []\<rparr>,
        [Send ''client-1'' ''transport-0f1e2d3c'' ''sender-0'' CASTV2_NS_MEDIA
           (MediaStatus (JNum 0)
              [\<lparr>mediaSessionId = 1, playerState = PLAYING,
                media = \<lparr>contentId = JStr ''http://x/a.mp3'', contentType = JStr '''',
                         streamType = JStr ''BUFFERED'', metadata = JObj []\<rparr>,
                currentTime = JNum 0, supportedMediaCommands = 274447,
                volume = \<lparr>level = 1, muted = False\<rparr>\<rparr>])],
        None)
   \<and> elapse 500 \<lparr>receiver = demo_paused, timers = [(500, ''client-1'', ''sender-0'')]\<rparr> =
       (\<lparr>receiver = demo_loaded\<lparr>mediaStatus := Some
            \<lparr>mediaSessionId = 1, playerState = PLAYING,
             media = \<lparr>contentId = JStr ''http://x/a.mp3'', contentType = JStr '''',
                      streamType = JStr ''BUFFERED'', metadata = JObj []\<rparr>,
             currentTime = JNum 0, supportedMediaCommands = 274447,
             volume = \<lparr>level = 1, muted = False\<rparr>\<rparr>\<rparr>,
         timers = []\<rparr>,
        [Send ''client-1'' ''transport-0f1e2d3c'' ''sender-0'' CASTV2_NS_MEDIA
           (MediaStatus (JNum 0)
              [\<lparr>mediaSessionId = 1, playerState = PLAYING,
                media = \<lparr>contentId = JStr ''http://x/a.mp3'', contentType = JStr '''',
                         streamType = JStr ''BUFFERED'', metadata = JObj []\<rparr>,
                currentTime = JNum 0, supportedMediaCommands = 274447,
                volume = \<lparr>level = 1, muted = False\<rparr>\<rparr>])],
        None)
   \<and> handleMedia demo_env ''client-1'' ''sender-0'' ''transport-0f1e2d3c''
        (Utf8 ''{"type":"LOAD","requestId":8,"media":{"contentType":"audio/mpeg"}}'') demo_loaded =
       (demo_loaded, [Log Debug, Log Warning], None)\<close>
proof -
  have ta: "js_prop (JObj [(''type'', JStr ''LOAD''), (''requestId'', JNum 2),
                (''media'', JObj [(''contentId'', JStr ''http://x/a.mp3'')])]) ''type'' =
            Inr (JStr ''LOAD'')"
    by simp
  have tn: "js_prop (JObj [(''type'', JStr ''LOAD''), (''requestId'', JNum 8),
                (''media'', JObj [(''contentType'', JStr ''audio/mpeg'')])]) ''type'' =
            Inr (JStr ''LOAD'')"
    by simp
  have launched: "speakerIp demo_launched = ''192.168.1.20''"
    "transportId demo_launched = ''transport-0f1e2d3c''" "mediaRequestId demo_launched = 0"
    by (simp_all add: demo_launched_eq demo_device_def start_def new_device_def)
  note loaded = load_behaviour [OF demo_load_a_parse ta, of demo_launched "''client-1''"
      "''sender-0''" "''transport-0f1e2d3c''" "[]", unfolded Let_def]
  have "truthy (get (JObj [(''type'', JStr ''LOAD''), (''requestId'', JNum 2),
                (''media'', JObj [(''contentId'', JStr ''http://x/a.mp3'')])]) ''media'')
      \<and> truthy (get (get (JObj [(''type'', JStr ''LOAD''), (''requestId'', JNum 2),
                (''media'', JObj [(''contentId'', JStr ''http://x/a.mp3'')])]) ''media'') ''contentId'')
      \<and> printable (get (get (JObj [(''type'', JStr ''LOAD''), (''requestId'', JNum 2),
                (''media'', JObj [(''contentId'', JStr ''http://x/a.mp3'')])]) ''media'') ''contentId'')
      \<and> printable (or_else (get (get (JObj [(''type'', JStr ''LOAD''), (''requestId'', JNum 2),
                (''media'', JObj [(''contentId'', JStr ''http://x/a.mp3'')])]) ''media'') ''contentType'')
            (JStr ''unknown''))
      \<and> server_up demo_launched"
    by (simp add: or_else_def demo_up)
  from loaded [THEN conjunct2, THEN conjunct1, THEN mp, OF this]
  have carried:
    \<open>deliver demo_env ''client-1'' ''sender-0'' ''transport-0f1e2d3c'' CASTV2_NS_MEDIA
        (Utf8 ''{"type":"LOAD","requestId":2,"media":{"contentId":"http://x/a.mp3"}}'')
        \<lparr>receiver = demo_launched, timers = []\<rparr> =
       (\<lparr>receiver = demo_loaded, timers = [(500, ''client-1'', ''sender-0'')]\<rparr>,
        [Log Debug, Log Info,
         Emit (LoadEv \<lparr>load_speakerIp = ''192.168.1.20'', load_contentId = JStr ''http://x/a.mp3'',
                       load_contentType = JStr '''', load_streamType = JStr ''BUFFERED'',
                       load_metadata = JObj [], autoplay = True, load_currentTime = JNum 0\<rparr>),
         Send ''client-1'' ''transport-0f1e2d3c'' ''sender-0'' CASTV2_NS_MEDIA
           (MediaStatus (JNum 2)
              [\<lparr>mediaSessionId = 1, playerState = BUFFERING,
                media = \<lparr>contentId = JStr ''http://x/a.mp3'', contentType = JStr '''',
                         streamType = JStr ''BUFFERED'', metadata = JObj []\<rparr>,
                currentTime = JNum 0, supportedMediaCommands = 274447,
                volume = \<lparr>level = 1, muted = False\<rparr>\<rparr>]),
         SetTimeout 500 ''client-1'' ''sender-0''],
        None)\<close>
    and fired: "elapse 500 \<lparr>receiver = demo_loaded, timers = [(500, ''client-1'', ''sender-0'')]\<rparr> =
       (\<lparr>receiver = demo_loaded\<lparr>mediaStatus := Some
            \<lparr>mediaSessionId = 1, playerState = PLAYING,
             media = \<lparr>contentId = JStr ''http://x/a.mp3'', contentType = JStr '''',
                      streamType = JStr ''BUFFERED'', metadata = JObj []\<rparr>,
             currentTime = JNum 0, supportedMediaCommands = 274447,
             volume = \<lparr>level = 1, muted = False\<rparr>\<rparr>\<rparr>,
         timers = []\<rparr>,
        [Send ''client-1'' ''transport-0f1e2d3c'' ''sender-0'' CASTV2_NS_MEDIA
           (MediaStatus (JNum 0)
              [\<lparr>mediaSessionId = 1, playerState = PLAYING,
                media = \<lparr>contentId = JStr ''http://x/a.mp3'', contentType = JStr '''',
                         streamType = JStr ''BUFFERED'', metadata = JObj []\<rparr>,
                currentTime = JNum 0, supportedMediaCommands = 274447,
                volume = \<lparr>level = 1, muted = False\<rparr>\<rparr>])],
        None)"
    by (simp_all add: or_else_def js_increment_def launched demo_loaded_launched)
  from loaded [THEN conjunct2, THEN conjunct2, THEN conjunct2, THEN conjunct1]
  have waiting:
    "elapse 499 \<lparr>receiver = demo_loaded, timers = [(500, ''client-1'', ''sender-0'')]\<rparr> =
       (\<lparr>receiver = demo_loaded, timers = [(1, ''client-1'', ''sender-0'')]\<rparr>, [], None)"
    by simp
  note unloaded = load_behaviour [OF demo_load_none_parse tn, of demo_loaded "''client-1''"
      "''sender-0''" "''transport-0f1e2d3c''" "[]", unfolded Let_def]
  from unloaded [THEN conjunct1]
  have dropped: \<open>handleMedia demo_env ''client-1'' ''sender-0'' ''transport-0f1e2d3c''
        (Utf8 ''{"type":"LOAD","requestId":8,"media":{"contentType":"audio/mpeg"}}'') demo_loaded =
       (demo_loaded, [Log Debug, Log Warning], None)\<close>
    by simp
  have "server_up demo_paused \<and> (500::nat) \<le> 500"
    by (simp add: demo_paused_eq demo_up)
  from loaded [THEN conjunct2, THEN conjunct2, THEN conjunct2, THEN conjunct2, THEN spec,
      THEN spec, THEN spec, THEN mp, OF this]
  have resumed:
    "elapse 500 \<lparr>receiver = demo_paused, timers = [(500, ''client-1'', ''sender-0'')]\<rparr> =
       (\<lparr>receiver = demo_loaded\<lparr>mediaStatus := Some
            \<lparr>mediaSessionId = 1, playerState = PLAYING,
             media = \<lparr>contentId = JStr ''http://x/a.mp3'', contentType = JStr '''',
                      streamType = JStr ''BUFFERED'', metadata = JObj []\<rparr>,
             currentTime = JNum 0, supportedMediaCommands = 274447,
             volume = \<lparr>level = 1, muted = False\<rparr>\<rparr>\<rparr>,
         timers = []\<rparr>,
        [Send ''client-1'' ''transport-0f1e2d3c'' ''sender-0'' CASTV2_NS_MEDIA
           (MediaStatus (JNum 0)
              [\<lparr>mediaSessionId = 1, playerState = PLAYING,
                media = \<lparr>contentId = JStr ''http://x/a.mp3'', contentType = JStr '''',
                         streamType = JStr ''BUFFERED'', metadata = JObj []\<rparr>,
                currentTime = JNum 0, supportedMediaCommands = 274447,
                volume = \<lparr>level = 1, muted = False\<rparr>\<rparr>])],
        None)"
    by (simp add: demo_paused_eq) (simp add: demo_loaded_eq demo_device_def start_def new_device_def)
  from demo_load_a_parse demo_up(2) carried waiting fired resumed dropped show ?thesis
    by (intro conjI)
qed

text \<open>
  Two sessions on which the claim as stated fails. A \<open>LOAD\<close> with the content id
  \<open>http://x/c.mp3\<close>, whose content type is an object with a \<open>toString\<close> property: it is
  dropped with a warning, the state unchanged. A \<open>LOAD\<close> followed within 500 ms by a
  receiver-namespace \<open>STOP\<close>: when the timer runs, the push carries an empty status list and
  no record is in state \<open>PLAYING\<close>.
\<close>

theorem load_not_played_counterexample:
  \<open>get (get (JObj [(''type'', JStr ''LOAD''), (''requestId'', JNum 9),
                   (''media'', JObj [(''contentId'', JStr ''http://x/c.mp3''),
                                     (''contentType'', JObj [(''toString'', JNum 1)])])])
          ''media'') ''contentId'' = JStr ''http://x/c.mp3''
   \<and> json_parse demo_env
        (Utf8 ''{"type":"LOAD","requestId":9,"media":{"contentId":"http://x/c.mp3","contentType":{"toString":1}}}'') =
       Inr (JObj [(''type'', JStr ''LOAD''), (''requestId'', JNum 9),
                  (''media'', JObj [(''contentId'', JStr ''http://x/c.mp3''),
                                    (''contentType'', JObj [(''toString'', JNum 1)])])])
   \<and> handleMedia demo_env ''client-1'' ''sender-0'' ''transport-0f1e2d3c''
        (Utf8 ''{"type":"LOAD","requestId":9,"media":{"contentId":"http://x/c.mp3","contentType":{"toString":1}}}'')
        demo_launched =
       (demo_launched, [Log Debug, Log Warning], None)
   \<and> elapse 500
        (fst (deliver demo_env ''client-1'' ''sender-0'' ''receiver-0'' CASTV2_NS_RECEIVER
                (Utf8 ''{"type":"STOP","requestId":5}'')
           (fst (deliver demo_env ''client-1'' ''sender-0'' ''transport-0f1e2d3c'' CASTV2_NS_MEDIA
                   (Utf8 ''{"type":"LOAD","requestId":2,"media":{"contentId":"http://x/a.mp3"}}'')
                   \<lparr>receiver = demo_launched, timers = []\<rparr>)))) =
       (\<lparr>receiver = demo_loaded\<lparr>appRunning := False, mediaStatus := None\<rparr>, timers = []\<rparr>,
        [Send ''client-1'' ''transport-0f1e2d3c'' ''sender-0'' CASTV2_NS_MEDIA
           (MediaStatus (JNum 0) [])],
        None)\<close>
proof -
  have tc: "js_prop (JObj [(''type'', JStr ''LOAD''), (''requestId'', JNum 9),
              (''media'', JObj [(''contentId'', JStr ''http://x/c.mp3''),
                                (''contentType'', JObj [(''toString'', JNum 1)])])]) ''type'' =
            Inr (JStr ''LOAD'')"
    by simp
  have nc: "\<not> has_contentId (JObj [(''type'', JStr ''LOAD''), (''requestId'', JNum 9),
              (''media'', JObj [(''contentId'', JStr ''http://x/c.mp3''),
                                (''contentType'', JObj [(''toString'', JNum 1)])])])"
    by (simp add: has_contentId_def or_else_def)
  have ta: "js_prop (JObj [(''type'', JStr ''LOAD''), (''requestId'', JNum 2),
                (''media'', JObj [(''contentId'', JStr ''http://x/a.mp3'')])]) ''type'' =
            Inr (JStr ''LOAD'')"
    by simp
  have ha: "has_contentId (JObj [(''type'', JStr ''LOAD''), (''requestId'', JNum 2),
                (''media'', JObj [(''contentId'', JStr ''http://x/a.mp3'')])])"
    by (simp add: has_contentId_def or_else_def)
  have loaded: \<open>fst (deliver demo_env ''client-1'' ''sender-0'' ''transport-0f1e2d3c'' CASTV2_NS_MEDIA
                   (Utf8 ''{"type":"LOAD","requestId":2,"media":{"contentId":"http://x/a.mp3"}}'')
                   \<lparr>receiver = demo_launched, timers = []\<rparr>) =
      \<lparr>receiver = demo_loaded, timers = [(500, ''client-1'', ''sender-0'')]\<rparr>\<close>
    using demo_up(2)
    by (simp add: deliver_media media_load_outcome [OF demo_load_a_parse ta ha] Let_def
          new_media_status_def or_else_def js_increment_def demo_loaded_launched)
       (simp add: demo_launched_eq demo_device_def start_def new_device_def)
  have stopped: \<open>fst (deliver demo_env ''client-1'' ''sender-0'' ''receiver-0'' CASTV2_NS_RECEIVER
                (Utf8 ''{"type":"STOP","requestId":5}'')
                \<lparr>receiver = demo_loaded, timers = [(500, ''client-1'', ''sender-0'')]\<rparr>) =
      \<lparr>receiver = demo_loaded\<lparr>appRunning := False, mediaStatus := None\<rparr>,
       timers = [(500, ''client-1'', ''sender-0'')]\<rparr>\<close>
    by (simp add: deliver_receiver demo_receiver_stop)
  have fired: "elapse 500 \<lparr>receiver = demo_loaded\<lparr>appRunning := False, mediaStatus := None\<rparr>,
       timers = [(500, ''client-1'', ''sender-0'')]\<rparr> =
      (\<lparr>receiver = demo_loaded\<lparr>appRunning := False, mediaStatus := None\<rparr>, timers = []\<rparr>,
        [Send ''client-1'' ''transport-0f1e2d3c'' ''sender-0'' CASTV2_NS_MEDIA
           (MediaStatus (JNum 0) [])],
        None)"
    using demo_up(3)
    by (simp add: elapse_one load_timer_outcome Let_def)
       (simp add: demo_loaded_eq demo_device_def start_def new_device_def)
  show ?thesis
    by (simp add: demo_load_c_parse media_load_dropped [OF demo_load_c_parse tc nc] loaded stopped
          fired)
qed

text \<open>
  C7 (idempotent identity). After a call of \<open>getOrCreateDevice\<close> for a speaker key has
  returned, a second call for the same key on the registry the first left returns as well,
  with the same device id and the same key and certificate, whatever display name it is
  given and whatever its library calls would have produced (a certificate generator that
  fails, a write that fails); it changes nothing of the stored entry but its \<open>lastSeen\<close>
  stamp.
\<close>

theorem getOrCreateDevice_idempotent:
  assumes "getOrCreateDevice env1 ip name1 s = Inr (s1, id1, cert1)"
  shows "\<exists>s2 e. getOrCreateDevice env2 ip name2 s1 = Inr (s2, id1, cert1)
            \<and> registry s1 ip = Some e \<and> deviceId e = id1 \<and> certificate e = cert1
            \<and> registry s2 = (registry s1)(ip \<mapsto> e\<lparr>lastSeen := now_first env2\<rparr>)"
proof -
  from assms obtain e where e: "registry s1 ip = Some e"
    and ide: "deviceId e = id1" and ce: "certificate e = cert1"
    by (auto simp: getOrCreateDevice_def save_def Let_def split: option.splits sum.splits if_splits)
  show ?thesis
    by (simp add: getOrCreateDevice_def e ide ce save_def Let_def)
qed

theorem getOrCreateDevice_idempotent_witness:
  "getOrCreateDevice demo_registry_env ''192.168.1.20'' ''Den (Cast-20)''
      \<lparr>registry = Map.empty, disk = None\<rparr> =
     Inr (\<lparr>registry = [''192.168.1.20'' \<mapsto>
          \<lparr>deviceId = ''0f1e2d3c4b5a49788796a5b4c3d2e1f0'',
           certificate = \<lparr>key = ''KEY Den (Cast-20)'', cert = ''CERT Den (Cast-20)''\<rparr>,
           createdAt = ''2026-02-22T10:00:00.000Z'', lastSeen = ''2026-02-22T10:00:00.001Z''\<rparr>],
       disk = Some [''192.168.1.20'' \<mapsto>
          \<lparr>deviceId = ''0f1e2d3c4b5a49788796a5b4c3d2e1f0'',
           certificate = \<lparr>key = ''KEY Den (Cast-20)'', cert = ''CERT Den (Cast-20)''\<rparr>,
           createdAt = ''2026-02-22T10:00:00.000Z'', lastSeen = ''2026-02-22T10:00:00.001Z''\<rparr>]\<rparr>,
      ''0f1e2d3c4b5a49788796a5b4c3d2e1f0'',
      \<lparr>key = ''KEY Den (Cast-20)'', cert = ''CERT Den (Cast-20)''\<rparr>)
   \<and> (\<exists>s2. getOrCreateDevice demo_registry_env_later ''192.168.1.20'' ''Renamed (Cast-20)''
        \<lparr>registry = [''192.168.1.20'' \<mapsto>
          \<lparr>deviceId = ''0f1e2d3c4b5a49788796a5b4c3d2e1f0'',
           certificate = \<lparr>key = ''KEY Den (Cast-20)'', cert = ''CERT Den (Cast-20)''\<rparr>,
           createdAt = ''2026-02-22T10:00:00.000Z'', lastSeen = ''2026-02-22T10:00:00.001Z''\<rparr>],
       disk = Some [''192.168.1.20'' \<mapsto>
          \<lparr>deviceId = ''0f1e2d3c4b5a49788796a5b4c3d2e1f0'',
           certificate = \<lparr>key = ''KEY Den (Cast-20)'', cert = ''CERT Den (Cast-20)''\<rparr>,
           createdAt = ''2026-02-22T10:00:00.000Z'', lastSeen = ''2026-02-22T10:00:00.001Z''\<rparr>]\<rparr> =
      Inr (s2, ''0f1e2d3c4b5a49788796a5b4c3d2e1f0'',
           \<lparr>key = ''KEY Den (Cast-20)'', cert = ''CERT Den (Cast-20)''\<rparr>))"
proof -
  have first: "getOrCreateDevice demo_registry_env ''192.168.1.20'' ''Den (Cast-20)''
      \<lparr>registry = Map.empty, disk = None\<rparr> =
     Inr (\<lparr>registry = [''192.168.1.20'' \<mapsto>
          \<lparr>deviceId = ''0f1e2d3c4b5a49788796a5b4c3d2e1f0'',
           certificate = \<lparr>key = ''KEY Den (Cast-20)'', cert = ''CERT Den (Cast-20)''\<rparr>,
           createdAt = ''2026-02-22T10:00:00.000Z'', lastSeen = ''2026-02-22T10:00:00.001Z''\<rparr>],
       disk = Some [''192.168.1.20'' \<mapsto>
          \<lparr>deviceId = ''0f1e2d3c4b5a49788796a5b4c3d2e1f0'',
           certificate = \<lparr>key = ''KEY Den (Cast-20)'', cert = ''CERT Den (Cast-20)''\<rparr>,
           createdAt = ''2026-02-22T10:00:00.000Z'', lastSeen = ''2026-02-22T10:00:00.001Z''\<rparr>]\<rparr>,
      ''0f1e2d3c4b5a49788796a5b4c3d2e1f0'',
      \<lparr>key = ''KEY Den (Cast-20)'', cert = ''CERT Den (Cast-20)''\<rparr>)"
    by (simp add: getOrCreateDevice_def demo_registry_env_def save_def Let_def)
  from getOrCreateDevice_idempotent [OF first, of demo_registry_env_later "''Renamed (Cast-20)''"] first
  show ?thesis by blast
qed

text \<open>
  C8 (stop and the pending timer). The source does not do what the claim says: \<open>stop\<close>
  clears no timer and sets \<open>_server\<close> to \<open>null\<close>, so the callback of a pending load timer
  still runs and raises a \<open>TypeError\<close> when it reaches \<open>_server.send\<close>. On the concrete
  session: the \<open>LOAD\<close> sets the timer, the device is stopped, the timer fires; no status
  message is sent, and the exception escapes the callback.
\<close>

theorem timer_after_stop_raises:
  \<open>SetTimeout 500 ''client-1'' ''sender-0'' \<in> set (fst (snd (step
      (Message demo_env ''client-1'' ''sender-0'' ''transport-0f1e2d3c'' CASTV2_NS_MEDIA
         (Utf8 ''{"type":"LOAD","requestId":6,"autoplay":null,"media":{"contentId":"http://x/b.mp3"}}''))
      demo_loaded)))
   \<and> snd (step (TimerFired ''client-1'' ''sender-0'') (fst (step Stopped (fst (step
      (Message demo_env ''client-1'' ''sender-0'' ''transport-0f1e2d3c'' CASTV2_NS_MEDIA
         (Utf8 ''{"type":"LOAD","requestId":6,"autoplay":null,"media":{"contentId":"http://x/b.mp3"}}''))
      demo_loaded))))) = ([], Some TypeError)\<close>
proof -
  have p: \<open>json_parse demo_env
             (Utf8 ''{"type":"LOAD","requestId":6,"autoplay":null,"media":{"contentId":"http://x/b.mp3"}}'') =
           Inr (JObj [(''type'', JStr ''LOAD''), (''requestId'', JNum 6), (''autoplay'', JNull),
                      (''media'', JObj [(''contentId'', JStr ''http://x/b.mp3'')])])\<close>
    by (simp add: demo_env_def demo_parse_def)
  have up: "server_up demo_loaded"
    by (simp add: demo_loaded_eq demo_device_def start_def new_device_def)
  have ns: "CASTV2_NS_MEDIA \<noteq> CASTV2_NS_CONNECTION" "CASTV2_NS_MEDIA \<noteq> CASTV2_NS_HEARTBEAT"
    "CASTV2_NS_MEDIA \<noteq> CASTV2_NS_DEVICEAUTH" "CASTV2_NS_MEDIA \<noteq> CASTV2_NS_RECEIVER"
    by (simp_all add: CASTV2_NS_CONNECTION_def CASTV2_NS_HEARTBEAT_def CASTV2_NS_DEVICEAUTH_def
          CASTV2_NS_RECEIVER_def CASTV2_NS_MEDIA_def)
  show ?thesis
    using up
    by (simp add: onMessage_def ns media_load_outcome [OF p] has_contentId_def or_else_def
          Let_def load_timer_outcome stop_server_down)
qed

text \<open>
  C9 (autoplay default). For a \<open>LOAD\<close> that passes the content-id check, exactly one event
  is emitted, the load event, and its autoplay flag is false only when the payload's
  \<open>autoplay\<close> is the boolean \<open>false\<close>: absent, \<open>null\<close> or anything else gives true.
\<close>

theorem load_autoplay_default:
  assumes "json_parse env d = Inr payload" and "js_prop payload ''type'' = Inr (JStr ''LOAD'')"
      and "has_contentId payload"
  shows "\<exists>ev. emitted (fst (snd (handleMedia env c src dst d s))) = [LoadEv ev]
            \<and> autoplay ev = (get payload ''autoplay'' \<noteq> JBool False)"
proof (intro exI conjI)
  show "emitted (fst (snd (handleMedia env c src dst d s))) =
          [LoadEv (load_event_of (speakerIp s) payload)]"
    by (simp add: media_load_outcome [OF assms] Let_def)
next
  show "autoplay (load_event_of (speakerIp s) payload) = (get payload ''autoplay'' \<noteq> JBool False)"
    by (simp add: load_event_of_def Let_def)
qed

theorem load_autoplay_default_witness:
  \<open>get (JObj [(''type'', JStr ''LOAD''), (''requestId'', JNum 6), (''autoplay'', JNull),
              (''media'', JObj [(''contentId'', JStr ''http://x/b.mp3'')])]) ''autoplay'' = JNull
   \<and> (\<exists>ev. emitted (fst (snd (handleMedia demo_env ''client-1'' ''sender-0'' ''transport-0f1e2d3c''
          (Utf8 ''{"type":"LOAD","requestId":6,"autoplay":null,"media":{"contentId":"http://x/b.mp3"}}'')
          demo_device))) = [LoadEv ev] \<and> autoplay ev)\<close>
proof -
  have t: "js_prop (JObj [(''type'', JStr ''LOAD''), (''requestId'', JNum 6), (''autoplay'', JNull),
              (''media'', JObj [(''contentId'', JStr ''http://x/b.mp3'')])]) ''type'' =
           Inr (JStr ''LOAD'')"
    by simp
  have h: "has_contentId (JObj [(''type'', JStr ''LOAD''), (''requestId'', JNum 6), (''autoplay'', JNull),
              (''media'', JObj [(''contentId'', JStr ''http://x/b.mp3'')])])"
    by (simp add: has_contentId_def or_else_def)
  from load_autoplay_default [OF demo_load_b_parse t h, of "''client-1''" "''sender-0''"
         "''transport-0f1e2d3c''" demo_device]
  show ?thesis by simp
qed

text \<open>
  C10 (no application precondition on the media namespace). Whatever the application flag is
  set to, on a receiver whose server is up a media-namespace \<open>PLAY\<close>, \<open>PAUSE\<close>, \<open>STOP\<close> or
  \<open>SEEK\<close> emits its intent (\<open>play\<close>, \<open>pause\<close>, \<open>stop\<close>, \<open>seek\<close> with the payload's
  \<open>currentTime\<close>) and replies with the media status, in which the record, if there is one,
  has taken the state \<open>PLAYING\<close>, \<open>PAUSED\<close>, \<open>IDLE\<close>, \<open>PLAYING\<close>; a \<open>LOAD\<close> with a content id
  creates the record in state \<open>BUFFERING\<close>, emits the load event, replies and sets the
  timer; a \<open>LOAD\<close> without one is dropped with a warning; and in each case the flag is left
  as it was set. For every media-namespace message whatsoever (one that does not parse, one
  of another type, one handled while the server is down), handled on two states that differ
  in the application flag only, the actions and the exception are the same and the states
  left differ in the application flag only; the same holds for the load timer; and no
  media-namespace message changes the flag.
\<close>

theorem media_ignores_appRunning:
  "handleMedia env c src dst d (s\<lparr>appRunning := b\<rparr>) =
     with_appRunning b (handleMedia env c src dst d s)
   \<and> load_timer c src (s\<lparr>appRunning := b\<rparr>) = with_appRunning b (load_timer c src s)
   \<and> appRunning (fst (handleMedia env c src dst d s)) = appRunning s
   \<and> (json_parse env d = Inr payload \<and> server_up s \<longrightarrow>
        (let rid = or_else (get payload ''requestId'') (JNum 0);
             m = get payload ''media'';
             to = (\<lambda>p. s\<lparr>appRunning := b,
                          mediaStatus := map_option (\<lambda>ms. ms\<lparr>playerState := p\<rparr>) (mediaStatus s)\<rparr>);
             status = (\<lambda>p. Send c (transportId s) src CASTV2_NS_MEDIA
                          (MediaStatus rid
                             (case mediaStatus s of None \<Rightarrow> []
                              | Some ms \<Rightarrow> [ms\<lparr>playerState := p\<rparr>])));
             n = js_increment (mediaRequestId s);
             ms = \<lparr>mediaSessionId = n, playerState = BUFFERING,
                   media = \<lparr>contentId = get m ''contentId'',
                            contentType = or_else (get m ''contentType'') (JStr ''''),
                            streamType = or_else (get m ''streamType'') (JStr ''BUFFERED''),
                            metadata = or_else (get m ''metadata'') (JObj [])\<rparr>,
                   currentTime = or_else (get payload ''currentTime'') (JNum 0),
                   supportedMediaCommands = 274447,
                   volume = \<lparr>level = 1, muted = False\<rparr>\<rparr>;
             ev = \<lparr>load_speakerIp = speakerIp s,
                   load_contentId = get m ''contentId'',
                   load_contentType = or_else (get m ''contentType'') (JStr ''''),
                   load_streamType = or_else (get m ''streamType'') (JStr ''BUFFERED''),
                   load_metadata = or_else (get m ''metadata'') (JObj []),
                   autoplay = (get payload ''autoplay'' \<noteq> JBool False),
                   load_currentTime = or_else (get payload ''currentTime'') (JNum 0)\<rparr>
         in (js_prop payload ''type'' = Inr (JStr ''PLAY'') \<longrightarrow>
               handleMedia env c src dst d (s\<lparr>appRunning := b\<rparr>) =
                 (to PLAYING, [Log Debug, Emit (PlayEv (speakerIp s)), status PLAYING], None))
          \<and> (js_prop payload ''type'' = Inr (JStr ''PAUSE'') \<longrightarrow>
               handleMedia env c src dst d (s\<lparr>appRunning := b\<rparr>) =
                 (to PAUSED, [Log Debug, Emit (PauseEv (speakerIp s)), status PAUSED], None))
          \<and> (js_prop payload ''type'' = Inr (JStr ''STOP'') \<longrightarrow>
               handleMedia env c src dst d (s\<lparr>appRunning := b\<rparr>) =
                 (to IDLE, [Log Debug, Emit (StopEv (speakerIp s)), status IDLE], None))
          \<and> (js_prop payload ''type'' = Inr (JStr ''SEEK'') \<longrightarrow>
               handleMedia env c src dst d (s\<lparr>appRunning := b\<rparr>) =
                 (to PLAYING,
                  [Log Debug, Emit (SeekEv (speakerIp s) (get payload ''currentTime'')),
                   status PLAYING], None))
          \<and> (js_prop payload ''type'' = Inr (JStr ''LOAD'') \<and> has_contentId payload \<longrightarrow>
               handleMedia env c src dst d (s\<lparr>appRunning := b\<rparr>) =
                 (s\<lparr>appRunning := b, mediaRequestId := n, mediaStatus := Some ms\<rparr>,
                  [Log Debug, Log Info, Emit (LoadEv ev),
                   Send c (transportId s) src CASTV2_NS_MEDIA (MediaStatus rid [ms]),
                   SetTimeout 500 c src], None))
          \<and> (js_prop payload ''type'' = Inr (JStr ''LOAD'') \<and> \<not> has_contentId payload \<longrightarrow>
               handleMedia env c src dst d (s\<lparr>appRunning := b\<rparr>) =
                 (s\<lparr>appRunning := b\<rparr>, [Log Debug, Log Warning], None))))"
proof (intro conjI impI, goal_cases)
  case 1
  show ?case
    by (rule handleMedia_appRunning)
next
  case 2
  show ?case
    by (rule load_timer_appRunning)
next
  case 3
  show ?case
    by (rule handleMedia_keeps_appRunning)
next
  case 4
  then have p: "json_parse env d = Inr payload" and up: "server_up (s\<lparr>appRunning := b\<rparr>)"
    by simp_all
  note control = media_control_outcome [OF p up, of c src dst]
  show ?case
    unfolding Let_def
  proof (intro conjI impI, goal_cases)
    case 1
    then show ?case
      by (simp add: control(1))
  next
    case 2
    then show ?case
      by (simp add: control(2))
  next
    case 3
    then show ?case
      by (simp add: control(3))
  next
    case 4
    then show ?case
      by (simp add: control(4))
  next
    case 5
    then have t: "js_prop payload ''type'' = Inr (JStr ''LOAD'')" and h: "has_contentId payload"
      by simp_all
    from up show ?case
      by (simp add: media_load_outcome [OF p t h] Let_def new_media_status_def load_event_of_def)
  next
    case 6
    then have t: "js_prop payload ''type'' = Inr (JStr ''LOAD'')" and h: "\<not> has_contentId payload"
      by simp_all
    show ?case
      by (rule media_load_dropped [OF p t h])
  qed
qed

theorem media_ignores_appRunning_witness:
  \<open>json_parse demo_env (Utf8 ''{"type":"PAUSE","requestId":3}'') =
     Inr (JObj [(''type'', JStr ''PAUSE''), (''requestId'', JNum 3)])
   \<and> server_up demo_loaded
   \<and> appRunning demo_loaded
   \<and> handleMedia demo_env ''client-1'' ''sender-0'' ''transport-0f1e2d3c''
        (Utf8 ''{"type":"PAUSE","requestId":3}'') (demo_loaded\<lparr>appRunning := False\<rparr>) =
       (demo_paused\<lparr>appRunning := False\<rparr>,
        [Log Debug, Emit (PauseEv ''192.168.1.20''),
         Send ''client-1'' ''transport-0f1e2d3c'' ''sender-0'' CASTV2_NS_MEDIA
           (MediaStatus (JNum 3)
              [\<lparr>mediaSessionId = 1, playerState = PAUSED,
                media = \<lparr>contentId = JStr ''http://x/a.mp3'', contentType = JStr '''',
                         streamType = JStr ''BUFFERED'', metadata = JObj []\<rparr>,
                currentTime = JNum 0, supportedMediaCommands = 274447,
                volume = \<lparr>level = 1, muted = False\<rparr>\<rparr>])],
        None)
   \<and> handleMedia demo_env ''client-1'' ''sender-0'' ''transport-0f1e2d3c''
        (Utf8 ''{"type":"PAUSE","requestId":3}'') (demo_loaded\<lparr>appRunning := True\<rparr>) =
       (demo_paused\<lparr>appRunning := True\<rparr>,
        [Log Debug, Emit (PauseEv ''192.168.1.20''),
         Send ''client-1'' ''transport-0f1e2d3c'' ''sender-0'' CASTV2_NS_MEDIA
           (MediaStatus (JNum 3)
              [\<lparr>mediaSessionId = 1, playerState = PAUSED,
                media = \<lparr>contentId = JStr ''http://x/a.mp3'', contentType = JStr '''',
                         streamType = JStr ''BUFFERED'', metadata = JObj []\<rparr>,
                currentTime = JNum 0, supportedMediaCommands = 274447,
                volume = \<lparr>level = 1, muted = False\<rparr>\<rparr>])],
        None)\<close>
proof -
  have t: "js_prop (JObj [(''type'', JStr ''PAUSE''), (''requestId'', JNum 3)]) ''type'' =
             Inr (JStr ''PAUSE'')"
    by simp
  have loaded: "speakerIp demo_loaded = ''192.168.1.20''"
    "transportId demo_loaded = ''transport-0f1e2d3c''" "appRunning demo_loaded"
    by (simp_all add: demo_loaded_eq demo_device_def start_def new_device_def)
  have paused:
    \<open>handleMedia demo_env ''client-1'' ''sender-0'' ''transport-0f1e2d3c''
        (Utf8 ''{"type":"PAUSE","requestId":3}'') (demo_loaded\<lparr>appRunning := b\<rparr>) =
       (demo_paused\<lparr>appRunning := b\<rparr>,
        [Log Debug, Emit (PauseEv ''192.168.1.20''),
         Send ''client-1'' ''transport-0f1e2d3c'' ''sender-0'' CASTV2_NS_MEDIA
           (MediaStatus (JNum 3)
              [\<lparr>mediaSessionId = 1, playerState = PAUSED,
                media = \<lparr>contentId = JStr ''http://x/a.mp3'', contentType = JStr '''',
                         streamType = JStr ''BUFFERED'', metadata = JObj []\<rparr>,
                currentTime = JNum 0, supportedMediaCommands = 274447,
                volume = \<lparr>level = 1, muted = False\<rparr>\<rparr>])],
        None)\<close> for b
  proof -
    note media_ignores_appRunning [where env = demo_env and c = "''client-1''"
        and src = "''sender-0''" and dst = "''transport-0f1e2d3c''" and s = demo_loaded
        and b = b and d = \<open>Utf8 ''{"type":"PAUSE","requestId":3}''\<close>
        and payload = "JObj [(''type'', JStr ''PAUSE''), (''requestId'', JNum 3)]",
        THEN conjunct2, THEN conjunct2, THEN conjunct2, THEN mp,
        OF conjI [OF demo_pause_parse demo_up(3)], unfolded Let_def,
        THEN conjunct2, THEN conjunct1, THEN mp, OF t]
    then show ?thesis
      by (simp add: or_else_def loaded demo_paused_eq) (simp add: demo_loaded_eq)
  qed
  from demo_pause_parse demo_up(3) loaded(3) paused [of False] paused [of True] show ?thesis
    by (intro conjI)
qed

end
